theory Spec2Isabelle
  imports Complex_Main "HOL-Library.AList" "HOL-Library.Sublist"
begin

section \<open>JavaScript values, thrown values and outcomes\<close>

text \<open>
  Both servers (\<^verbatim>\<open>couchbase-mcp-monsters/src/index.ts\<close> and
  \<^verbatim>\<open>couchbase-mcp-starwars/src/index.ts\<close>) handle JSON values whose shape is only
  known at run time: the \<^verbatim>\<open>name\<close> argument of a tool call and the content of a
  stored document. They are modelled by one datatype of JavaScript values. Numbers are
  never computed with, only tested for truthiness and passed on, so they are rationals.
  Strings are HOL strings; the case mappings below are the ASCII part of
  \<^verbatim>\<open>toUpperCase\<close> and \<^verbatim>\<open>toLowerCase\<close>. The property list of an object is in
  JavaScript property order, with distinct keys.
\<close>

datatype jsval =
    JUndefined
  | JNull
  | JBool bool
  | JNum rat
  | JStr string
  | JArr "jsval list"
  | JObj "(string \<times> jsval) list"

text \<open>\<^verbatim>\<open>!v\<close> is \<open>\<not> truthy v\<close>.\<close>

fun truthy :: "jsval \<Rightarrow> bool" where
  "truthy JUndefined = False"
| "truthy JNull = False"
| "truthy (JBool b) = b"
| "truthy (JNum n) = (n \<noteq> 0)"
| "truthy (JStr s) = (s \<noteq> [])"
| "truthy (JArr xs) = True"
| "truthy (JObj kvs) = True"

text \<open>\<^verbatim>\<open>typeof v !== 'string'\<close> is \<open>\<not> is_string v\<close>.\<close>

fun is_string :: "jsval \<Rightarrow> bool" where
  "is_string (JStr s) = True"
| "is_string v = False"

text \<open>
  The classes of failure of a datastore call. The SDK rejects with an instance of
  \<^verbatim>\<open>Error\<close> that carries a message; the class is what tells a missing key from a
  timeout or a connectivity failure.
\<close>

datatype failure = DocumentNotFound | Timeout | Unavailable | OtherFailure

datatype thrown =
    Error string
  | TypeError string
  | SdkError failure string
  | NonError

text \<open>\<^verbatim>\<open>err instanceof Error ? err.message : 'Unknown error'\<close>\<close>

fun err_message :: "thrown \<Rightarrow> string" where
  "err_message (Error m) = m"
| "err_message (TypeError m) = m"
| "err_message (SdkError k m) = m"
| "err_message NonError = ''Unknown error''"

text \<open>
  An awaited call returns a value, throws, or never settles. \<open>Unsettled\<close> is the
  outcome of awaiting a promise that is never resolved.
\<close>

datatype 'a outcome = Returned 'a | Thrown thrown | Unsettled

text \<open>
  Reading property \<open>k\<close> of a value: a \<^verbatim>\<open>TypeError\<close> on \<^verbatim>\<open>null\<close> and
  \<^verbatim>\<open>undefined\<close>, the stored value on an object that has the key, \<^verbatim>\<open>undefined\<close>
  otherwise (the keys read by the servers, \<^verbatim>\<open>embedding\<close>, \<^verbatim>\<open>name\<close>,
  \<^verbatim>\<open>climate\<close>, \<^verbatim>\<open>terrain\<close> and \<^verbatim>\<open>population\<close>, are no built-in property of a
  string, a number or an array).
\<close>

fun property :: "jsval \<Rightarrow> string \<Rightarrow> thrown + jsval" where
  "property JUndefined k =
     Inl (TypeError (''Cannot read properties of undefined (reading '' @ k @ '')''))"
| "property JNull k =
     Inl (TypeError (''Cannot read properties of null (reading '' @ k @ '')''))"
| "property (JObj kvs) k = Inr (case map_of kvs k of Some v \<Rightarrow> v | None \<Rightarrow> JUndefined)"
| "property v k = Inr JUndefined"

text \<open>Decimal digits of an array index, the property key of an element.\<close>

fun index_key :: "nat \<Rightarrow> string" where
  "index_key n =
     (if n < 10 then [char_of (48 + n)]
      else index_key (n div 10) @ [char_of (48 + n mod 10)])"

declare index_key.simps [simp del]

text \<open>The own enumerable properties copied by an object spread \<^verbatim>\<open>{...v}\<close>.\<close>

fun spread :: "jsval \<Rightarrow> (string \<times> jsval) list" where
  "spread (JObj kvs) = kvs"
| "spread (JArr xs) = zip (map index_key [0..<length xs]) xs"
| "spread (JStr s) = zip (map index_key [0..<length s]) (map (\<lambda>c. JStr [c]) s)"
| "spread v = []"

subsection \<open>Strings\<close>

text \<open>
  The case mappings cover the letters \<^verbatim>\<open>a\<close> to \<^verbatim>\<open>z\<close> and \<^verbatim>\<open>A\<close> to \<^verbatim>\<open>Z\<close> only.
  JavaScript also maps the letters outside ASCII, some of them to more than one
  character; names with such letters are outside this model.
\<close>

definition toUpperChar :: "char \<Rightarrow> char" where
  "toUpperChar c =
     (let n = of_char c :: nat in if 97 \<le> n \<and> n \<le> 122 then char_of (n - 32) else c)"

definition toLowerChar :: "char \<Rightarrow> char" where
  "toLowerChar c =
     (let n = of_char c :: nat in if 65 \<le> n \<and> n \<le> 90 then char_of (n + 32) else c)"

definition toUpperCase :: "string \<Rightarrow> string" where
  "toUpperCase s = map toUpperChar s"

definition toLowerCase :: "string \<Rightarrow> string" where
  "toLowerCase s = map toLowerChar s"

text \<open>
  \<^verbatim>\<open>str.charAt(0).toUpperCase() + str.slice(1).toLowerCase()\<close>;
  \<^verbatim>\<open>charAt(0)\<close> of the empty string is the empty string.
\<close>

definition capitalizeFirstLetter :: "string \<Rightarrow> string" where
  "capitalizeFirstLetter str = toUpperCase (take 1 str) @ toLowerCase (drop 1 str)"

section \<open>The datastore and the connection handle\<close>

text \<open>
  A row of a search result: the identifier of the match and its score.
\<close>

datatype row = Row (row_id: string) (row_score: rat)

text \<open>
  The calls the servers issue to the Couchbase SDK, in the order they are issued. The
  clock of a state is the number of calls issued so far.
\<close>

datatype event =
    Connect
  | Close
  | Get string
  | GetProjected string "string list"
  | Search string "jsval list" nat

record state =
  cluster :: bool
  trace :: "event list"

definition clock :: "state \<Rightarrow> nat" where
  "clock s = length (trace s)"

definition issue :: "event \<Rightarrow> state \<Rightarrow> state" where
  "issue e s = s\<lparr>trace := trace s @ [e]\<rparr>"

text \<open>
  The SDK and the database behind it are external: what each call answers is a
  parameter, and may change with the clock. \<open>sdk_connect\<close> and \<open>sdk_close\<close> give the
  rejection of \<^verbatim>\<open>couchbase.connect\<close> and \<^verbatim>\<open>cluster.close\<close>, if any;
  \<open>sdk_get\<close> is \<^verbatim>\<open>collection.get(id)\<close>; \<open>sdk_get_projected\<close> is
  \<^verbatim>\<open>collection.get(id, {timeout: 2000, project: fields})\<close>; \<open>sdk_vector_query\<close> is the
  construction of the search request from the embedding; \<open>sdk_search\<close> is
  \<^verbatim>\<open>scope.search(index, request)\<close> with the number of candidates of the request.
  \<open>sdk_search_late\<close> and \<open>sdk_get_late\<close> say that the call has not settled when the
  timer it is raced against fires.
\<close>

record datastore =
  sdk_connect :: "nat \<Rightarrow> thrown option"
  sdk_close :: "nat \<Rightarrow> thrown option"
  sdk_get :: "nat \<Rightarrow> string \<Rightarrow> thrown + jsval"
  sdk_get_projected :: "nat \<Rightarrow> string \<Rightarrow> string list \<Rightarrow> thrown + jsval"
  sdk_get_late :: "nat \<Rightarrow> bool"
  sdk_vector_query :: "jsval list \<Rightarrow> thrown option"
  sdk_search :: "nat \<Rightarrow> string \<Rightarrow> jsval list \<Rightarrow> nat \<Rightarrow> thrown + row list"
  sdk_search_late :: "nat \<Rightarrow> bool"

text \<open>
  \<^verbatim>\<open>Promise.race([p, new Promise((_, reject) => setTimeout(() => reject(new Error(msg)), ms))])\<close>:
  the timer wins when \<open>p\<close> is late.
\<close>

definition race :: "bool \<Rightarrow> thrown + 'a \<Rightarrow> string \<Rightarrow> thrown + 'a" where
  "race late p msg = (if late then Inl (Error msg) else p)"

text \<open>
  \<^verbatim>\<open>Promise.all\<close> over promises that all fulfil: each promise, when it completes,
  stores its value at its own index of the array of values, and the result is that array
  once every index is filled. The promises complete in the order of their delays.
\<close>

definition completion_order :: "(nat \<Rightarrow> nat) \<Rightarrow> nat \<Rightarrow> nat list" where
  "completion_order delay n = sort_key delay [0..<n]"

definition promise_all :: "(nat \<Rightarrow> nat) \<Rightarrow> 'a list \<Rightarrow> 'a list option" where
  "promise_all delay ps =
     those (fold (\<lambda>i vals. vals[i := Some (ps ! i)])
              (completion_order delay (length ps))
              (replicate (length ps) None))"

text \<open>
  \<^verbatim>\<open>rows.map(async row => ...)\<close> where the callback starts with a projected read of
  \<^verbatim>\<open>row.id\<close>: each callback runs up to its first \<^verbatim>\<open>await\<close>, so the reads are
  issued in the order of the rows, and \<open>callback t row\<close> is what the callback whose read
  was issued at clock \<open>t\<close> finally returns.
\<close>

fun mapRows ::
  "(nat \<Rightarrow> row \<Rightarrow> jsval) \<Rightarrow> string list \<Rightarrow> row list \<Rightarrow> state \<Rightarrow> jsval list \<times> state" where
  "mapRows callback project [] s = ([], s)"
| "mapRows callback project (r # rs) s =
     (let doc = callback (clock s) r;
          (docs, s') = mapRows callback project rs (issue (GetProjected (row_id r) project) s)
      in (doc # docs, s'))"

text \<open>\<^verbatim>\<open>initCouchbase\<close>: connect when the handle is null, then return the handle.\<close>

definition initCouchbase :: "datastore \<Rightarrow> state \<Rightarrow> unit outcome \<times> state" where
  "initCouchbase ds s =
     (if \<not> cluster s then
        (case sdk_connect ds (clock s) of
           None \<Rightarrow> (Returned (), (issue Connect s)\<lparr>cluster := True\<rparr>)
         | Some e \<Rightarrow> (Thrown e, issue Connect s))
      else (Returned (), s))"

text \<open>
  The two steps of \<^verbatim>\<open>initCouchbase\<close> on either side of its \<^verbatim>\<open>await\<close>. The first
  tests the handle and, when it is null, calls \<^verbatim>\<open>couchbase.connect\<close> and suspends; it
  gives the clock of the call awaited, if any. The second runs when that call has
  settled: it assigns the handle, or throws the rejection.
\<close>

definition initBegin :: "state \<Rightarrow> nat option \<times> state" where
  "initBegin s = (if \<not> cluster s then (Some (clock s), issue Connect s) else (None, s))"

definition initResume :: "datastore \<Rightarrow> nat \<Rightarrow> state \<Rightarrow> unit outcome \<times> state" where
  "initResume ds t s =
     (case sdk_connect ds t of
        None \<Rightarrow> (Returned (), s\<lparr>cluster := True\<rparr>)
      | Some e \<Rightarrow> (Thrown e, s))"

text \<open>
  \<^verbatim>\<open>getCollection\<close>: the bucket, scope and collection references are built locally
  from the handle, without a call to the database.
\<close>

definition getCollection :: "datastore \<Rightarrow> state \<Rightarrow> unit outcome \<times> state" where
  "getCollection ds s = initCouchbase ds s"

section \<open>The monsters server\<close>

text \<open>\<^verbatim>\<open>getMonster\<close>; \<^verbatim>\<open>null\<close> is \<open>JNull\<close>.\<close>

definition getMonster :: "datastore \<Rightarrow> string \<Rightarrow> state \<Rightarrow> jsval outcome \<times> state" where
  "getMonster ds name s =
     (if name = [] then (Thrown (Error ''Monster name is required''), s)
      else
        let docId = ''monster::'' @ toLowerCase name in
        (case getCollection ds s of
           (Returned u, s1) \<Rightarrow>
             (case sdk_get ds (clock s1) docId of
                Inr content \<Rightarrow> (Returned content, issue (Get docId) s1)
              | Inl err \<Rightarrow> (Returned JNull, issue (Get docId) s1))
         | (Thrown e, s1) \<Rightarrow> (Thrown e, s1)
         | (Unsettled, s1) \<Rightarrow> (Unsettled, s1)))"

text \<open>
  The body of the callback of \<^verbatim>\<open>result.rows.slice(0, 5).map\<close> in
  \<^verbatim>\<open>findSimilarMonsters\<close>, for the read issued at clock \<open>t\<close>.
\<close>

definition monsterFields :: "string list" where
  "monsterFields = [''name'', ''type'', ''challenge_rating'', ''size'']"

definition hydrateMonster :: "datastore \<Rightarrow> nat \<Rightarrow> row \<Rightarrow> jsval" where
  "hydrateMonster ds t r =
     (case sdk_get_projected ds t (row_id r) monsterFields of
        Inr content \<Rightarrow>
          JObj (AList.update ''id'' (JStr (row_id r))
                 (AList.update ''score'' (JNum (row_score r)) (spread content)))
      | Inl err \<Rightarrow> JNull)"

definition hydrateMonsters :: "datastore \<Rightarrow> row list \<Rightarrow> state \<Rightarrow> jsval list \<times> state" where
  "hydrateMonsters ds rows s = mapRows (hydrateMonster ds) monsterFields rows s"

text \<open>
  Lines 143 to 156 of \<^verbatim>\<open>findSimilarMonsters\<close>: resolve the monster, take its
  embedding, get the handle.
\<close>

definition monsterAnchor :: "datastore \<Rightarrow> string \<Rightarrow> state \<Rightarrow> jsval list outcome \<times> state" where
  "monsterAnchor ds monsterName s =
     (case getMonster ds monsterName s of
        (Returned monsterDoc, s1) \<Rightarrow>
          if \<not> truthy monsterDoc
          then (Thrown (Error (''Monster not found: '' @ monsterName)), s1)
          else
            (case property monsterDoc ''embedding'' of
               Inr (JArr monsterEmbedding) \<Rightarrow>
                 (case initCouchbase ds s1 of
                    (Returned c, s2) \<Rightarrow> (Returned monsterEmbedding, s2)
                  | (Thrown e, s2) \<Rightarrow> (Thrown e, s2)
                  | (Unsettled, s2) \<Rightarrow> (Unsettled, s2))
             | Inr v \<Rightarrow> (Thrown (Error (''No embedding found for monster: '' @ monsterName)), s1)
             | Inl e \<Rightarrow> (Thrown e, s1))
      | (Thrown e, s1) \<Rightarrow> (Thrown e, s1)
      | (Unsettled, s1) \<Rightarrow> (Unsettled, s1))"

text \<open>The \<^verbatim>\<open>try\<close> block of \<^verbatim>\<open>findSimilarMonsters\<close>.\<close>

definition monsterSearch ::
  "datastore \<Rightarrow> (nat \<Rightarrow> nat) \<Rightarrow> jsval list \<Rightarrow> state \<Rightarrow> jsval outcome \<times> state" where
  "monsterSearch ds delay monsterEmbedding s =
     (case sdk_vector_query ds monsterEmbedding of
        Some e \<Rightarrow> (Thrown e, s)
      | None \<Rightarrow>
          let s1 = issue (Search ''pdf_search'' monsterEmbedding 5) s in
          (case race (sdk_search_late ds (clock s))
                  (sdk_search ds (clock s) ''pdf_search'' monsterEmbedding 5) ''Search timeout'' of
             Inl e \<Rightarrow> (Thrown e, s1)
           | Inr rows \<Rightarrow>
               if rows = [] then (Returned (JArr []), s1)
               else
                 (case getCollection ds s1 of
                    (Returned u, s2) \<Rightarrow>
                      (let (docs, s3) = hydrateMonsters ds (take 5 rows) s2 in
                       case promise_all delay docs of
                         Some docs' \<Rightarrow> (Returned (JArr (filter (\<lambda>doc. doc \<noteq> JNull) docs')), s3)
                       | None \<Rightarrow> (Unsettled, s3))
                  | (Thrown e, s2) \<Rightarrow> (Thrown e, s2)
                  | (Unsettled, s2) \<Rightarrow> (Unsettled, s2))))"

text \<open>\<^verbatim>\<open>findSimilarMonsters\<close>: the anchor, then the \<^verbatim>\<open>try\<close> block under its \<^verbatim>\<open>catch\<close>.\<close>

definition findSimilarMonsters ::
  "datastore \<Rightarrow> (nat \<Rightarrow> nat) \<Rightarrow> string \<Rightarrow> state \<Rightarrow> jsval outcome \<times> state" where
  "findSimilarMonsters ds delay monsterName s =
     (case monsterAnchor ds monsterName s of
        (Returned monsterEmbedding, s2) \<Rightarrow>
          (case monsterSearch ds delay monsterEmbedding s2 of
             (Thrown err, s3) \<Rightarrow>
               (Thrown (Error (''Vector search failed: '' @ err_message err)), s3)
           | (Returned docs, s3) \<Rightarrow> (Returned docs, s3)
           | (Unsettled, s3) \<Rightarrow> (Unsettled, s3))
      | (Thrown e, s2) \<Rightarrow> (Thrown e, s2)
      | (Unsettled, s2) \<Rightarrow> (Unsettled, s2))"

text \<open>
  A tool call and the payload returned to the transport. The text of a payload is a
  literal message or \<^verbatim>\<open>JSON.stringify(v, null, 2)\<close>, kept as the value serialised.
\<close>

record request =
  tool :: string
  name_arg :: jsval

datatype body = Literal string | Stringify jsval

record payload =
  content_text :: body
  isError :: bool

text \<open>
  The handler of \<^verbatim>\<open>CallToolRequestSchema\<close>. In the first case the argument is cast to
  a string without a check: a truthy value that is no string reaches \<^verbatim>\<open>getMonster\<close>,
  whose \<^verbatim>\<open>name.toLowerCase()\<close> throws before anything else happens.
\<close>

definition monstersHandler ::
  "datastore \<Rightarrow> (nat \<Rightarrow> nat) \<Rightarrow> request \<Rightarrow> state \<Rightarrow> payload outcome \<times> state" where
  "monstersHandler ds delay req s =
     (if tool req = ''fetch_monster_name'' then
        (let monsterName = name_arg req in
         if \<not> truthy monsterName
         then (Returned \<lparr>content_text = Literal ''Monster name is required'', isError = True\<rparr>, s)
         else
           (case monsterName of
              JStr n \<Rightarrow>
                (case getMonster ds n s of
                   (Returned monster, s1) \<Rightarrow>
                     if \<not> truthy monster
                     then (Returned \<lparr>content_text = Literal (''Monster \"'' @ n @ ''\" not found''),
                                      isError = True\<rparr>, s1)
                     else (Returned \<lparr>content_text = Stringify monster, isError = False\<rparr>, s1)
                 | (Thrown e, s1) \<Rightarrow> (Thrown e, s1)
                 | (Unsettled, s1) \<Rightarrow> (Unsettled, s1))
            | v \<Rightarrow> (Thrown (TypeError ''name.toLowerCase is not a function''), s)))
      else if tool req = ''find_monsters_which_are_similar'' then
        (let monsterName = name_arg req in
         case monsterName of
           JStr n \<Rightarrow>
             (case findSimilarMonsters ds delay n s of
                (Returned similarMonsters, s1) \<Rightarrow>
                  (Returned \<lparr>content_text = Stringify similarMonsters, isError = False\<rparr>, s1)
              | (Thrown e, s1) \<Rightarrow> (Thrown e, s1)
              | (Unsettled, s1) \<Rightarrow> (Unsettled, s1))
         | v \<Rightarrow>
             (Returned \<lparr>content_text = Literal ''Monster name must be a string'',
                        isError = True\<rparr>, s))
      else (Thrown (Error ''Unknown tool''), s))"

section \<open>The starwars server\<close>

text \<open>\<^verbatim>\<open>getCharacter\<close>; \<^verbatim>\<open>null\<close> is \<open>JNull\<close>.\<close>

definition getCharacter :: "datastore \<Rightarrow> string \<Rightarrow> state \<Rightarrow> jsval outcome \<times> state" where
  "getCharacter ds name s =
     (if name = [] then (Thrown (Error ''Planet name is required''), s)
      else
        let docId = capitalizeFirstLetter name in
        (case getCollection ds s of
           (Returned u, s1) \<Rightarrow>
             (case sdk_get ds (clock s1) docId of
                Inr content \<Rightarrow> (Returned content, issue (Get docId) s1)
              | Inl err \<Rightarrow> (Returned JNull, issue (Get docId) s1))
         | (Thrown e, s1) \<Rightarrow> (Thrown e, s1)
         | (Unsettled, s1) \<Rightarrow> (Unsettled, s1)))"

text \<open>
  \<^verbatim>\<open>if (cluster) { await cluster.close(); cluster = null; }\<close>, as it stands after
  the hydration and in the \<^verbatim>\<open>catch\<close> block of \<^verbatim>\<open>findSimilarCharacters\<close>.
\<close>

definition closeCluster :: "datastore \<Rightarrow> state \<Rightarrow> unit outcome \<times> state" where
  "closeCluster ds s =
     (if cluster s then
        (case sdk_close ds (clock s) of
           None \<Rightarrow> (Returned (), (issue Close s)\<lparr>cluster := False\<rparr>)
         | Some e \<Rightarrow> (Thrown e, issue Close s))
      else (Returned (), s))"

text \<open>
  The body of the callback of \<^verbatim>\<open>result.rows.slice(0, 5).map\<close> in
  \<^verbatim>\<open>findSimilarCharacters\<close>, for the read issued at clock \<open>t\<close>: the read is raced
  against a timer of its own, and whatever is thrown, the callback returns \<^verbatim>\<open>null\<close>.
\<close>

definition characterFields :: "string list" where
  "characterFields = [''name'', ''climate'', ''terrain'', ''population'']"

definition hydrateCharacter :: "datastore \<Rightarrow> nat \<Rightarrow> row \<Rightarrow> jsval" where
  "hydrateCharacter ds t r =
     (case race (sdk_get_late ds t) (sdk_get_projected ds t (row_id r) characterFields)
             ''Document fetch timeout'' of
        Inr content \<Rightarrow>
          (case property content ''name'' of
             Inl e \<Rightarrow> JNull
           | Inr name \<Rightarrow>
          (case property content ''climate'' of
             Inl e \<Rightarrow> JNull
           | Inr climate \<Rightarrow>
          (case property content ''terrain'' of
             Inl e \<Rightarrow> JNull
           | Inr terrain \<Rightarrow>
          (case property content ''population'' of
             Inl e \<Rightarrow> JNull
           | Inr population \<Rightarrow>
               JObj [(''name'', name), (''climate'', climate), (''terrain'', terrain),
                     (''population'', population), (''score'', JNum (row_score r)),
                     (''id'', JStr (row_id r))]))))
      | Inl err \<Rightarrow> JNull)"

definition hydrateCharacters :: "datastore \<Rightarrow> row list \<Rightarrow> state \<Rightarrow> jsval list \<times> state" where
  "hydrateCharacters ds rows s = mapRows (hydrateCharacter ds) characterFields rows s"

text \<open>
  Lines 131 to 144 of \<^verbatim>\<open>findSimilarCharacters\<close>: resolve the planet, take its
  embedding, get the handle.
\<close>

definition characterAnchor :: "datastore \<Rightarrow> string \<Rightarrow> state \<Rightarrow> jsval list outcome \<times> state" where
  "characterAnchor ds planetName s =
     (case getCharacter ds planetName s of
        (Returned planetDoc, s1) \<Rightarrow>
          if \<not> truthy planetDoc
          then (Thrown (Error (''Planet not found: '' @ planetName)), s1)
          else
            (case property planetDoc ''embedding'' of
               Inr (JArr planetEmbedding) \<Rightarrow>
                 (case initCouchbase ds s1 of
                    (Returned c, s2) \<Rightarrow> (Returned planetEmbedding, s2)
                  | (Thrown e, s2) \<Rightarrow> (Thrown e, s2)
                  | (Unsettled, s2) \<Rightarrow> (Unsettled, s2))
             | Inr v \<Rightarrow> (Thrown (Error (''No embedding found for planet: '' @ planetName)), s1)
             | Inl e \<Rightarrow> (Thrown e, s1))
      | (Thrown e, s1) \<Rightarrow> (Thrown e, s1)
      | (Unsettled, s1) \<Rightarrow> (Unsettled, s1))"

text \<open>
  The \<^verbatim>\<open>try\<close> block of \<^verbatim>\<open>findSimilarCharacters\<close>. The search is given a timeout
  of 3000 ms and raced against a timer of 3000 ms. An empty list of rows returns before
  the handle is closed.
\<close>

definition characterSearch ::
  "datastore \<Rightarrow> (nat \<Rightarrow> nat) \<Rightarrow> jsval list \<Rightarrow> state \<Rightarrow> jsval outcome \<times> state" where
  "characterSearch ds delay planetEmbedding s =
     (case sdk_vector_query ds planetEmbedding of
        Some e \<Rightarrow> (Thrown e, s)
      | None \<Rightarrow>
          let s1 = issue (Search ''vector-search-index'' planetEmbedding 5) s in
          (case race (sdk_search_late ds (clock s))
                  (sdk_search ds (clock s) ''vector-search-index'' planetEmbedding 5)
                  ''Search timeout'' of
             Inl e \<Rightarrow> (Thrown e, s1)
           | Inr rows \<Rightarrow>
               if rows = [] then (Returned (JArr []), s1)
               else
                 (case getCollection ds s1 of
                    (Returned u, s2) \<Rightarrow>
                      (let (docs, s3) = hydrateCharacters ds (take 5 rows) s2 in
                       case promise_all delay docs of
                         Some docs' \<Rightarrow>
                           (case closeCluster ds s3 of
                              (Returned u', s4) \<Rightarrow>
                                (Returned (JArr (filter (\<lambda>doc. doc \<noteq> JNull) docs')), s4)
                            | (Thrown e, s4) \<Rightarrow> (Thrown e, s4)
                            | (Unsettled, s4) \<Rightarrow> (Unsettled, s4))
                       | None \<Rightarrow> (Unsettled, s3))
                  | (Thrown e, s2) \<Rightarrow> (Thrown e, s2)
                  | (Unsettled, s2) \<Rightarrow> (Unsettled, s2))))"

text \<open>
  \<^verbatim>\<open>findSimilarCharacters\<close>: the anchor, then the \<^verbatim>\<open>try\<close> block under its
  \<^verbatim>\<open>catch\<close>, which closes the handle before it throws.
\<close>

definition findSimilarCharacters ::
  "datastore \<Rightarrow> (nat \<Rightarrow> nat) \<Rightarrow> string \<Rightarrow> state \<Rightarrow> jsval outcome \<times> state" where
  "findSimilarCharacters ds delay planetName s =
     (case characterAnchor ds planetName s of
        (Returned planetEmbedding, s2) \<Rightarrow>
          (case characterSearch ds delay planetEmbedding s2 of
             (Thrown err, s3) \<Rightarrow>
               (case closeCluster ds s3 of
                  (Returned u, s4) \<Rightarrow>
                    (Thrown (Error (''Vector search failed: '' @ err_message err)), s4)
                | (Thrown e, s4) \<Rightarrow> (Thrown e, s4)
                | (Unsettled, s4) \<Rightarrow> (Unsettled, s4))
           | (Returned docs, s3) \<Rightarrow> (Returned docs, s3)
           | (Unsettled, s3) \<Rightarrow> (Unsettled, s3))
      | (Thrown e, s2) \<Rightarrow> (Thrown e, s2)
      | (Unsettled, s2) \<Rightarrow> (Unsettled, s2))"

text \<open>
  The handler of \<^verbatim>\<open>CallToolRequestSchema\<close>; a truthy argument that is no string
  reaches \<^verbatim>\<open>capitalizeFirstLetter\<close>, whose \<^verbatim>\<open>str.charAt(0)\<close> throws.
\<close>

definition starwarsHandler ::
  "datastore \<Rightarrow> (nat \<Rightarrow> nat) \<Rightarrow> request \<Rightarrow> state \<Rightarrow> payload outcome \<times> state" where
  "starwarsHandler ds delay req s =
     (if tool req = ''fetch_planet_name'' then
        (let planetName = name_arg req in
         if \<not> truthy planetName
         then (Returned \<lparr>content_text = Literal ''Planet name is required'', isError = True\<rparr>, s)
         else
           (case planetName of
              JStr n \<Rightarrow>
                (case getCharacter ds n s of
                   (Returned planet, s1) \<Rightarrow>
                     if \<not> truthy planet
                     then (Returned \<lparr>content_text = Literal (''Planet \"'' @ n @ ''\" not found''),
                                      isError = True\<rparr>, s1)
                     else (Returned \<lparr>content_text = Stringify planet, isError = False\<rparr>, s1)
                 | (Thrown e, s1) \<Rightarrow> (Thrown e, s1)
                 | (Unsettled, s1) \<Rightarrow> (Unsettled, s1))
            | v \<Rightarrow> (Thrown (TypeError ''str.charAt is not a function''), s)))
      else if tool req = ''find_planets_which_are_similar'' then
        (let planetName = name_arg req in
         case planetName of
           JStr n \<Rightarrow>
             (case findSimilarCharacters ds delay n s of
                (Returned similarPlanets, s1) \<Rightarrow>
                  (Returned \<lparr>content_text = Stringify similarPlanets, isError = False\<rparr>, s1)
              | (Thrown e, s1) \<Rightarrow> (Thrown e, s1)
              | (Unsettled, s1) \<Rightarrow> (Unsettled, s1))
         | v \<Rightarrow>
             (Returned \<lparr>content_text = Literal ''Planet name must be a string'',
                        isError = True\<rparr>, s))
      else (Thrown (Error ''Unknown tool''), s))"

section \<open>Serving a sequence of tool calls\<close>

text \<open>
  One server process starts with a null handle and handles its tool calls one after the
  other; the handle is the only state a call leaves to the next.
\<close>

definition start :: state where
  "start = \<lparr>cluster = False, trace = []\<rparr>"

fun serveMonsters :: "datastore \<Rightarrow> (nat \<Rightarrow> nat) \<Rightarrow> request list \<Rightarrow> state \<Rightarrow> state" where
  "serveMonsters ds delay [] s = s"
| "serveMonsters ds delay (req # reqs) s =
     serveMonsters ds delay reqs (snd (monstersHandler ds delay req s))"

fun serveStarwars :: "datastore \<Rightarrow> (nat \<Rightarrow> nat) \<Rightarrow> request list \<Rightarrow> state \<Rightarrow> state" where
  "serveStarwars ds delay [] s = s"
| "serveStarwars ds delay (req # reqs) s =
     serveStarwars ds delay reqs (snd (starwarsHandler ds delay req s))"

section \<open>Vocabulary of the properties\<close>

text \<open>
  A hydration read fails, for the monsters server, when the projected read is rejected
  (timeout, missing key, content that cannot be decoded). For the starwars server it
  also fails when the timer of the read wins the race, and when the content read is
  \<^verbatim>\<open>null\<close> or \<^verbatim>\<open>undefined\<close>, whose fields cannot be read.
\<close>

definition monsterReadFails :: "datastore \<Rightarrow> nat \<Rightarrow> row \<Rightarrow> bool" where
  "monsterReadFails ds t r = isl (sdk_get_projected ds t (row_id r) monsterFields)"

definition characterReadFails :: "datastore \<Rightarrow> nat \<Rightarrow> row \<Rightarrow> bool" where
  "characterReadFails ds t r =
     (case race (sdk_get_late ds t) (sdk_get_projected ds t (row_id r) characterFields)
             ''Document fetch timeout'' of
        Inl e \<Rightarrow> True
      | Inr content \<Rightarrow> content = JNull \<or> content = JUndefined)"

text \<open>
  The identifier and the score an element of the result carries, and those of a row of
  the search.
\<close>

definition matchOf :: "jsval \<Rightarrow> (thrown + jsval) \<times> (thrown + jsval)" where
  "matchOf doc = (property doc ''id'', property doc ''score'')"

definition rowMatch :: "row \<Rightarrow> (thrown + jsval) \<times> (thrown + jsval)" where
  "rowMatch r = (Inr (JStr (row_id r)), Inr (JNum (row_score r)))"

text \<open>
  The number of connection setups that succeeded among the calls of a trace (the call
  at position \<open>t\<close> was issued at clock \<open>t\<close>), and the invariant of a handle that is
  established at most once and never closed: one successful setup when the handle is
  set, none when it is null, and no close.
\<close>

fun establishedFrom :: "datastore \<Rightarrow> nat \<Rightarrow> event list \<Rightarrow> nat" where
  "establishedFrom ds t [] = 0"
| "establishedFrom ds t (e # es) =
     (if e = Connect \<and> sdk_connect ds t = None then 1 else 0) + establishedFrom ds (Suc t) es"

definition established :: "datastore \<Rightarrow> state \<Rightarrow> nat" where
  "established ds s = establishedFrom ds 0 (trace s)"

definition handleKept :: "datastore \<Rightarrow> state \<Rightarrow> bool" where
  "handleKept ds s \<longleftrightarrow>
     established ds s = (if cluster s then 1 else 0) \<and> Close \<notin> set (trace s)"

text \<open>The number of closes of the handle among the calls issued so far.\<close>

definition closes :: "state \<Rightarrow> nat" where
  "closes s = count_list (trace s) Close"

text \<open>
  A datastore for the examples: the documents \<^verbatim>\<open>Tatooine\<close> and
  \<^verbatim>\<open>monster::goblin\<close> have an embedding, \<^verbatim>\<open>Hoth\<close> and \<^verbatim>\<open>monster::ooze\<close> have
  none, no other key exists; the search returns five rows, and the projected read of
  \<^verbatim>\<open>Alderaan\<close> times out.
\<close>

definition galaxyRows :: "row list" where
  "galaxyRows = [Row ''Hoth'' 5, Row ''Alderaan'' 4, Row ''Naboo'' 3, Row ''Endor'' 2,
                 Row ''Dagobah'' 1]"

definition galaxy :: datastore where
  "galaxy = \<lparr>
     sdk_connect = (\<lambda>t. None),
     sdk_close = (\<lambda>t. None),
     sdk_get = (\<lambda>t k.
        if k = ''Tatooine'' \<or> k = ''monster::goblin''
        then Inr (JObj [(''name'', JStr ''Tatooine''), (''embedding'', JArr [JNum 1, JNum 2])])
        else if k = ''Hoth'' \<or> k = ''monster::ooze''
        then Inr (JObj [(''name'', JStr ''Hoth'')])
        else Inl (SdkError DocumentNotFound ''document not found'')),
     sdk_get_projected = (\<lambda>t k fs.
        if k = ''Alderaan'' then Inl (SdkError Timeout ''timeout'')
        else Inr (JObj [(''name'', JStr k)])),
     sdk_get_late = (\<lambda>t. False),
     sdk_vector_query = (\<lambda>v. None),
     sdk_search = (\<lambda>t i v n. Inr galaxyRows),
     sdk_search_late = (\<lambda>t. False)\<rparr>"

text \<open>The same datastore when the search does not answer in time.\<close>

definition slowGalaxy :: datastore where
  "slowGalaxy = galaxy\<lparr>sdk_search_late := (\<lambda>t. True)\<rparr>"

text \<open>The example datastore, and the slow one, when every close of the handle is rejected.\<close>

definition stuckGalaxy :: datastore where
  "stuckGalaxy = galaxy\<lparr>sdk_close := (\<lambda>t. Some (SdkError Unavailable ''close failed''))\<rparr>"

definition slowStuckGalaxy :: datastore where
  "slowStuckGalaxy =
     slowGalaxy\<lparr>sdk_close := (\<lambda>t. Some (SdkError Unavailable ''close failed''))\<rparr>"

text \<open>The same datastore when every point-read fails for lack of connectivity.\<close>

definition outage :: datastore where
  "outage = galaxy\<lparr>sdk_get := (\<lambda>t k. Inl (SdkError Unavailable ''cluster unreachable''))\<rparr>"

text \<open>The same datastore when no connection can be established.\<close>

definition unreachable :: datastore where
  "unreachable =
     galaxy\<lparr>sdk_connect := (\<lambda>t. Some (SdkError Unavailable ''cluster unreachable''))\<rparr>"

text \<open>Two find-similar calls for a name that no document has.\<close>

definition findGhost :: request where
  "findGhost = \<lparr>tool = ''find_monsters_which_are_similar'', name_arg = JStr ''Ghost''\<rparr>"

definition findGhostPlanet :: request where
  "findGhostPlanet = \<lparr>tool = ''find_planets_which_are_similar'', name_arg = JStr ''ghost''\<rparr>"

text \<open>A find-similar call and a fetch call for names that exist.\<close>

definition findTatooine :: request where
  "findTatooine = \<lparr>tool = ''find_planets_which_are_similar'', name_arg = JStr ''tatooine''\<rparr>"

definition fetchGoblin :: request where
  "fetchGoblin = \<lparr>tool = ''fetch_monster_name'', name_arg = JStr ''Goblin''\<rparr>"

text \<open>A completion order that is the reverse of the order of the rows.\<close>

definition lastFirst :: "nat \<Rightarrow> nat" where
  "lastFirst i = 5 - i"

text \<open>The state of a server whose handle is established and has served one read.\<close>

definition connected :: "string \<Rightarrow> state" where
  "connected docId = \<lparr>cluster = True, trace = [Connect, Get docId]\<rparr>"

section \<open>Basic facts\<close>

lemma those_map_Some: "those (map Some xs) = Some xs"
  by (induction xs) simp_all

lemma fold_fill_length:
  "length (fold (\<lambda>i vals. vals[i := Some (ps ! i)]) is vals) = length vals"
  by (induction "is" arbitrary: vals) simp_all

lemma fold_fill_nth:
  "j < length vals \<Longrightarrow>
   fold (\<lambda>i vals. vals[i := Some (ps ! i)]) is vals ! j =
     (if j \<in> set is then Some (ps ! j) else vals ! j)"
  by (induction "is" arbitrary: vals) (auto simp: nth_list_update)

lemma promise_all_fulfils: "promise_all delay ps = Some ps"
proof -
  let ?filled = "fold (\<lambda>i vals. vals[i := Some (ps ! i)])
                   (completion_order delay (length ps)) (replicate (length ps) None)"
  have len: "length ?filled = length ps"
    by (simp add: fold_fill_length)
  have "?filled ! j = Some (ps ! j)" if "j < length ps" for j
    using that by (simp add: fold_fill_nth completion_order_def)
  then have "?filled = map Some ps"
    using len by (intro nth_equalityI) simp_all
  then show ?thesis
    by (simp add: promise_all_def those_map_Some)
qed

lemma clock_issue: "clock (issue e s) = Suc (clock s)"
  by (simp add: clock_def issue_def)

lemma cluster_issue: "cluster (issue e s) = cluster s"
  by (simp add: issue_def)

lemma trace_issue: "trace (issue e s) = trace s @ [e]"
  by (simp add: issue_def)

lemma mapRows_fst:
  "fst (mapRows callback project rows s) = map (\<lambda>(t, r). callback t r) (List.enumerate (clock s) rows)"
  by (induction rows arbitrary: s)
     (simp_all add: clock_issue Let_def case_prod_beta)

lemma mapRows_cluster: "cluster (snd (mapRows callback project rows s)) = cluster s"
  by (induction rows arbitrary: s) (simp_all add: cluster_issue Let_def case_prod_beta)

lemma mapRows_trace:
  "trace (snd (mapRows callback project rows s)) =
     trace s @ map (\<lambda>r. GetProjected (row_id r) project) rows"
  by (induction rows arbitrary: s) (simp_all add: trace_issue Let_def case_prod_beta)

lemma initCouchbase_connected: "cluster s \<Longrightarrow> initCouchbase ds s = (Returned (), s)"
  by (simp add: initCouchbase_def)

lemma initCouchbase_Returned: "initCouchbase ds s = (Returned u, s') \<Longrightarrow> cluster s'"
  by (auto simp: initCouchbase_def cluster_issue split: if_splits option.splits)

lemma getMonster_Returned: "getMonster ds name s = (Returned doc, s') \<Longrightarrow> cluster s'"
  by (auto simp: getMonster_def getCollection_def Let_def cluster_issue
           dest: initCouchbase_Returned
           split: if_splits prod.splits outcome.splits sum.splits)

lemma monsterAnchor_Returned:
  "monsterAnchor ds name s = (Returned emb, s') \<Longrightarrow> cluster s'"
  by (auto simp: monsterAnchor_def dest: initCouchbase_Returned
           split: if_splits prod.splits outcome.splits sum.splits jsval.splits)

lemma monsterSearch_rows:
  assumes "cluster s" "sdk_vector_query ds emb = None" "\<not> sdk_search_late ds (clock s)"
    and "sdk_search ds (clock s) ''pdf_search'' emb 5 = Inr rows"
  shows "monsterSearch ds delay emb s =
    (Returned (JArr (filter (\<lambda>doc. doc \<noteq> JNull)
        (fst (hydrateMonsters ds (take 5 rows) (issue (Search ''pdf_search'' emb 5) s))))),
     snd (hydrateMonsters ds (take 5 rows) (issue (Search ''pdf_search'' emb 5) s)))"
proof (cases "rows = []")
  case True
  with assms show ?thesis
    by (simp add: monsterSearch_def race_def hydrateMonsters_def Let_def)
next
  case False
  with assms show ?thesis
    by (simp add: monsterSearch_def race_def Let_def getCollection_def
        initCouchbase_connected cluster_issue promise_all_fulfils split: prod.splits)
qed

lemma mapRows_snd:
  "snd (mapRows callback project rows s) =
     s\<lparr>trace := trace s @ map (\<lambda>r. GetProjected (row_id r) project) rows\<rparr>"
  by (induction rows arbitrary: s) (simp_all add: issue_def Let_def case_prod_beta)

lemma hydrateMonster_Null: "hydrateMonster ds t r = JNull \<longleftrightarrow> monsterReadFails ds t r"
  by (simp add: hydrateMonster_def monsterReadFails_def split: sum.splits)

lemma property_nullish: "isl (property v k) \<longleftrightarrow> v = JNull \<or> v = JUndefined"
  by (cases v) simp_all

lemma hydrateCharacter_Null: "hydrateCharacter ds t r = JNull \<longleftrightarrow> characterReadFails ds t r"
proof (cases "race (sdk_get_late ds t) (sdk_get_projected ds t (row_id r) characterFields)
                ''Document fetch timeout''")
  case (Inl e)
  then show ?thesis
    by (simp add: hydrateCharacter_def characterReadFails_def)
next
  case (Inr content)
  then show ?thesis
    by (cases content) (simp_all add: hydrateCharacter_def characterReadFails_def)
qed

lemma matchOf_hydrateMonster:
  "\<not> monsterReadFails ds t r \<Longrightarrow> matchOf (hydrateMonster ds t r) = rowMatch r"
  by (cases "sdk_get_projected ds t (row_id r) monsterFields")
     (simp_all add: hydrateMonster_def monsterReadFails_def matchOf_def rowMatch_def
        update_conv')

lemma matchOf_hydrateCharacter:
  assumes "\<not> characterReadFails ds t r"
  shows "matchOf (hydrateCharacter ds t r) = rowMatch r"
proof (cases "race (sdk_get_late ds t) (sdk_get_projected ds t (row_id r) characterFields)
                ''Document fetch timeout''")
  case (Inl e)
  with assms show ?thesis
    by (simp add: characterReadFails_def)
next
  case (Inr content)
  with assms show ?thesis
    by (cases content)
       (simp_all add: hydrateCharacter_def characterReadFails_def matchOf_def rowMatch_def)
qed

lemma filter_hydrated:
  assumes "\<And>t r. callback t r = JNull \<longleftrightarrow> fails t r"
  shows "filter (\<lambda>doc. doc \<noteq> JNull) (fst (mapRows callback project rows s)) =
         map (\<lambda>(t, r). callback t r)
           (filter (\<lambda>(t, r). \<not> fails t r) (List.enumerate (clock s) rows))"
  by (simp add: mapRows_fst filter_map comp_def case_prod_unfold assms)

lemma findSimilarMonsters_hydrated:
  assumes "monsterAnchor ds name s = (Returned emb, s2)"
    and "sdk_vector_query ds emb = None"
    and "\<not> sdk_search_late ds (clock s2)"
    and "sdk_search ds (clock s2) ''pdf_search'' emb 5 = Inr rows"
  shows "findSimilarMonsters ds delay name s =
    (Returned (JArr (map (\<lambda>(t, r). hydrateMonster ds t r)
        (filter (\<lambda>(t, r). \<not> monsterReadFails ds t r)
           (List.enumerate (Suc (clock s2)) (take 5 rows))))),
     s2\<lparr>trace := trace s2 @ Search ''pdf_search'' emb 5 #
           map (\<lambda>r. GetProjected (row_id r) monsterFields) (take 5 rows)\<rparr>)"
proof -
  have "cluster s2"
    using assms(1) by (rule monsterAnchor_Returned)
  then have "monsterSearch ds delay emb s2 =
    (Returned (JArr (filter (\<lambda>doc. doc \<noteq> JNull)
        (fst (hydrateMonsters ds (take 5 rows) (issue (Search ''pdf_search'' emb 5) s2))))),
     snd (hydrateMonsters ds (take 5 rows) (issue (Search ''pdf_search'' emb 5) s2)))"
    using assms(2-4) by (rule monsterSearch_rows)
  then show ?thesis
    using assms(1)
    by (simp add: findSimilarMonsters_def hydrateMonsters_def mapRows_snd
        filter_hydrated [of "hydrateMonster ds" "monsterReadFails ds", OF hydrateMonster_Null]
        clock_issue issue_def clock_def)
qed

lemma getCharacter_Returned: "getCharacter ds name s = (Returned doc, s') \<Longrightarrow> cluster s'"
  by (auto simp: getCharacter_def getCollection_def Let_def cluster_issue
           dest: initCouchbase_Returned
           split: if_splits prod.splits outcome.splits sum.splits)

lemma characterAnchor_Returned:
  "characterAnchor ds name s = (Returned emb, s') \<Longrightarrow> cluster s'"
  by (auto simp: characterAnchor_def dest: initCouchbase_Returned
           split: if_splits prod.splits outcome.splits sum.splits jsval.splits)

lemma characterSearch_no_rows:
  assumes "sdk_vector_query ds emb = None" "\<not> sdk_search_late ds (clock s)"
    and "sdk_search ds (clock s) ''vector-search-index'' emb 5 = Inr []"
  shows "characterSearch ds delay emb s =
    (Returned (JArr []), issue (Search ''vector-search-index'' emb 5) s)"
  using assms by (simp add: characterSearch_def race_def Let_def)

lemma characterSearch_rows:
  assumes "cluster s" "sdk_vector_query ds emb = None" "\<not> sdk_search_late ds (clock s)"
    and "sdk_search ds (clock s) ''vector-search-index'' emb 5 = Inr rows"
    and "rows \<noteq> []"
    and "sdk_close ds (Suc (clock s) + min (length rows) 5) = None"
  shows "characterSearch ds delay emb s =
    (Returned (JArr (filter (\<lambda>doc. doc \<noteq> JNull)
        (fst (hydrateCharacters ds (take 5 rows)
               (issue (Search ''vector-search-index'' emb 5) s))))),
     s\<lparr>cluster := False,
       trace := trace s @ Search ''vector-search-index'' emb 5 #
         map (\<lambda>r. GetProjected (row_id r) characterFields) (take 5 rows) @ [Close]\<rparr>)"
  using assms
  by (simp add: characterSearch_def race_def Let_def getCollection_def
      initCouchbase_connected cluster_issue promise_all_fulfils closeCluster_def
      hydrateCharacters_def mapRows_snd clock_def issue_def case_prod_unfold)

lemma findSimilarCharacters_hydrated:
  assumes "characterAnchor ds name s = (Returned emb, s2)"
    and "sdk_vector_query ds emb = None"
    and "\<not> sdk_search_late ds (clock s2)"
    and "sdk_search ds (clock s2) ''vector-search-index'' emb 5 = Inr rows"
    and "rows = [] \<or> sdk_close ds (Suc (clock s2) + min (length rows) 5) = None"
  shows "findSimilarCharacters ds delay name s =
    (Returned (JArr (map (\<lambda>(t, r). hydrateCharacter ds t r)
        (filter (\<lambda>(t, r). \<not> characterReadFails ds t r)
           (List.enumerate (Suc (clock s2)) (take 5 rows))))),
     if rows = [] then s2\<lparr>trace := trace s2 @ [Search ''vector-search-index'' emb 5]\<rparr>
     else s2\<lparr>cluster := False,
            trace := trace s2 @ Search ''vector-search-index'' emb 5 #
              map (\<lambda>r. GetProjected (row_id r) characterFields) (take 5 rows) @ [Close]\<rparr>)"
proof (cases "rows = []")
  case True
  then show ?thesis
    using assms(1-4)
    by (simp add: findSimilarCharacters_def characterSearch_no_rows issue_def)
next
  case False
  have "cluster s2"
    using assms(1) by (rule characterAnchor_Returned)
  then show ?thesis
    using assms False
    by (simp add: findSimilarCharacters_def characterSearch_rows hydrateCharacters_def
        filter_hydrated [of "hydrateCharacter ds" "characterReadFails ds",
          OF hydrateCharacter_Null]
        clock_issue)
qed

lemma monsterSearch_delay:
  "monsterSearch ds delay emb s = monsterSearch ds delay' emb s"
  by (simp add: monsterSearch_def promise_all_fulfils Let_def
      split: option.splits sum.splits prod.splits outcome.splits)

lemma characterSearch_delay:
  "characterSearch ds delay emb s = characterSearch ds delay' emb s"
  by (simp add: characterSearch_def promise_all_fulfils Let_def
      split: option.splits sum.splits prod.splits outcome.splits)

lemma findSimilarMonsters_delay:
  "findSimilarMonsters ds delay name s = findSimilarMonsters ds delay' name s"
proof -
  have eq: "monsterSearch ds delay = monsterSearch ds delay'"
    by (intro ext) (rule monsterSearch_delay)
  show ?thesis
    unfolding findSimilarMonsters_def eq ..
qed

lemma findSimilarCharacters_delay:
  "findSimilarCharacters ds delay name s = findSimilarCharacters ds delay' name s"
proof -
  have eq: "characterSearch ds delay = characterSearch ds delay'"
    by (intro ext) (rule characterSearch_delay)
  show ?thesis
    unfolding findSimilarCharacters_def eq ..
qed

lemma subseq_survivors:
  assumes "\<And>t r. \<not> fails t r \<Longrightarrow> matchOf (callback t r) = rowMatch r"
  shows "subseq
    (map matchOf (map (\<lambda>(t, r). callback t r)
       (filter (\<lambda>(t, r). \<not> fails t r) (List.enumerate n (take k rows)))))
    (map rowMatch rows)"
proof -
  let ?kept = "filter (\<lambda>(t, r). \<not> fails t r) (List.enumerate n (take k rows))"
  have eq: "map matchOf (map (\<lambda>(t, r). callback t r) ?kept) = map rowMatch (map snd ?kept)"
    using assms by (auto simp: case_prod_unfold)
  have "subseq (map snd ?kept) (map snd (List.enumerate n (take k rows)))"
    by (intro subseq_map subseq_filter_left)
  then have "subseq (map snd ?kept) (take k rows)"
    by simp
  then have "subseq (map snd ?kept) rows"
    by (rule subseq_order.trans) (rule sublist_imp_subseq, rule sublist_take)
  then have "subseq (map rowMatch (map snd ?kept)) (map rowMatch rows)"
    by (rule subseq_map)
  then show ?thesis
    unfolding eq .
qed

lemma monsterSearch_rejected:
  assumes "sdk_vector_query ds emb = None"
    and "race (sdk_search_late ds (clock s)) (sdk_search ds (clock s) ''pdf_search'' emb 5)
           ''Search timeout'' = Inl e"
  shows "monsterSearch ds delay emb s = (Thrown e, issue (Search ''pdf_search'' emb 5) s)"
  using assms by (simp add: monsterSearch_def Let_def)

lemma characterSearch_rejected:
  assumes "sdk_vector_query ds emb = None"
    and "race (sdk_search_late ds (clock s))
           (sdk_search ds (clock s) ''vector-search-index'' emb 5) ''Search timeout'' = Inl e"
  shows "characterSearch ds delay emb s =
    (Thrown e, issue (Search ''vector-search-index'' emb 5) s)"
  using assms by (simp add: characterSearch_def Let_def)

lemma initCouchbase_trace:
  "initCouchbase ds s = (out, s') \<Longrightarrow>
   trace s' = trace s @ (if cluster s then [] else [Connect])"
  by (auto simp: initCouchbase_def issue_def split: if_splits option.splits)

lemma getMonster_trace:
  assumes "getMonster ds name s = (Returned doc, s1)"
  shows "trace s1 = trace s @ (if cluster s then [] else [Connect]) @
           [Get (''monster::'' @ toLowerCase name)]"
proof -
  obtain out s0 where init: "initCouchbase ds s = (out, s0)"
    by (cases "initCouchbase ds s")
  from assms init have "trace s1 = trace s0 @ [Get (''monster::'' @ toLowerCase name)]"
    by (auto simp: getMonster_def getCollection_def Let_def issue_def
        split: if_splits outcome.splits sum.splits)
  with initCouchbase_trace [OF init] show ?thesis
    by simp
qed

lemma getCharacter_trace:
  assumes "getCharacter ds name s = (Returned doc, s1)"
  shows "trace s1 = trace s @ (if cluster s then [] else [Connect]) @
           [Get (capitalizeFirstLetter name)]"
proof -
  obtain out s0 where init: "initCouchbase ds s = (out, s0)"
    by (cases "initCouchbase ds s")
  from assms init have "trace s1 = trace s0 @ [Get (capitalizeFirstLetter name)]"
    by (auto simp: getCharacter_def getCollection_def Let_def issue_def
        split: if_splits outcome.splits sum.splits)
  with initCouchbase_trace [OF init] show ?thesis
    by simp
qed

lemma establishedFrom_append:
  "establishedFrom ds t (xs @ ys) =
     establishedFrom ds t xs + establishedFrom ds (t + length xs) ys"
  by (induction xs arbitrary: t) simp_all

lemma established_issue:
  "established ds (issue e s) =
     established ds s + (if e = Connect \<and> sdk_connect ds (clock s) = None then 1 else 0)"
  by (simp add: established_def issue_def clock_def establishedFrom_append)

lemma established_cluster_update [simp]:
  "established ds (s\<lparr>cluster := b\<rparr>) = established ds s"
  by (simp add: established_def)

lemma handleKept_start: "handleKept ds start"
  by (simp add: handleKept_def established_def start_def)

lemma handleKept_issue:
  "handleKept ds s \<Longrightarrow> e \<noteq> Connect \<Longrightarrow> e \<noteq> Close \<Longrightarrow> handleKept ds (issue e s)"
  by (simp add: handleKept_def established_issue) (simp add: issue_def)

lemma handleKept_initCouchbase:
  "initCouchbase ds s = (out, s') \<Longrightarrow> handleKept ds s \<Longrightarrow> handleKept ds s'"
  by (auto simp: initCouchbase_def handleKept_def established_issue trace_issue cluster_issue
      split: option.splits if_splits)

lemma handleKept_getMonster:
  "getMonster ds name s = (out, s') \<Longrightarrow> handleKept ds s \<Longrightarrow> handleKept ds s'"
  by (auto simp: getMonster_def getCollection_def Let_def handleKept_issue
      split: prod.splits outcome.splits sum.splits if_splits
      dest: handleKept_initCouchbase)

lemma handleKept_mapRows:
  "mapRows callback project rows s = (docs, s') \<Longrightarrow> handleKept ds s \<Longrightarrow> handleKept ds s'"
proof (induction rows arbitrary: s docs)
  case Nil
  then show ?case by simp
next
  case (Cons r rows)
  then show ?case
    by (auto simp: Let_def handleKept_issue split: prod.splits)
qed

lemma handleKept_monsterAnchor:
  "monsterAnchor ds name s = (out, s') \<Longrightarrow> handleKept ds s \<Longrightarrow> handleKept ds s'"
  by (auto simp: monsterAnchor_def
      split: prod.splits outcome.splits sum.splits jsval.splits if_splits
      dest: handleKept_getMonster handleKept_initCouchbase)

lemma handleKept_monsterSearch:
  "monsterSearch ds delay emb s = (out, s') \<Longrightarrow> handleKept ds s \<Longrightarrow> handleKept ds s'"
  by (auto simp: monsterSearch_def Let_def getCollection_def promise_all_fulfils
        hydrateMonsters_def handleKept_issue
      split: option.splits sum.splits prod.splits outcome.splits if_splits
      dest!: handleKept_initCouchbase [where s = "issue (Search ''pdf_search'' emb 5) s"]
      dest: handleKept_mapRows)

lemma handleKept_findSimilarMonsters:
  "findSimilarMonsters ds delay name s = (out, s') \<Longrightarrow> handleKept ds s \<Longrightarrow> handleKept ds s'"
  by (auto simp: findSimilarMonsters_def split: prod.splits outcome.splits
      dest: handleKept_monsterAnchor handleKept_monsterSearch)

lemma handleKept_monstersHandler:
  "monstersHandler ds delay req s = (out, s') \<Longrightarrow> handleKept ds s \<Longrightarrow> handleKept ds s'"
  by (auto simp: monstersHandler_def Let_def
      split: prod.splits outcome.splits jsval.splits if_splits
      dest: handleKept_getMonster handleKept_findSimilarMonsters)

lemma handleKept_serveMonsters:
  "handleKept ds s \<Longrightarrow> handleKept ds (serveMonsters ds delay reqs s)"
proof (induction reqs arbitrary: s)
  case Nil
  then show ?case by simp
next
  case (Cons req reqs)
  obtain out s' where step: "monstersHandler ds delay req s = (out, s')"
    by (cases "monstersHandler ds delay req s")
  with Cons.prems have "handleKept ds s'"
    by (rule handleKept_monstersHandler [rotated])
  then show ?case
    using step by (simp add: Cons.IH)
qed

lemma cluster_initCouchbase:
  "initCouchbase ds s = (out, s') \<Longrightarrow> cluster s \<Longrightarrow> cluster s'"
  by (simp add: initCouchbase_def)

lemma cluster_getMonster:
  "getMonster ds name s = (out, s') \<Longrightarrow> cluster s \<Longrightarrow> cluster s'"
  by (auto simp: getMonster_def getCollection_def Let_def initCouchbase_connected cluster_issue
      split: sum.splits if_splits)

lemma cluster_monsterAnchor:
  "monsterAnchor ds name s = (out, s') \<Longrightarrow> cluster s \<Longrightarrow> cluster s'"
  by (auto simp: monsterAnchor_def
      split: prod.splits outcome.splits sum.splits jsval.splits if_splits
      dest: cluster_getMonster cluster_initCouchbase)

lemma cluster_mapRows:
  "mapRows callback project rows (issue e s) = (docs, s') \<Longrightarrow> cluster s' = cluster s"
  using mapRows_cluster [of callback project rows "issue e s"] by (simp add: cluster_issue)

lemma cluster_monsterSearch:
  "monsterSearch ds delay emb s = (out, s') \<Longrightarrow> cluster s \<Longrightarrow> cluster s'"
  by (auto simp: monsterSearch_def Let_def getCollection_def promise_all_fulfils
        hydrateMonsters_def initCouchbase_connected cluster_issue
      split: option.splits sum.splits prod.splits if_splits
      dest!: cluster_mapRows)

lemma cluster_findSimilarMonsters:
  "findSimilarMonsters ds delay name s = (out, s') \<Longrightarrow> cluster s \<Longrightarrow> cluster s'"
  by (auto simp: findSimilarMonsters_def split: prod.splits outcome.splits
      dest: cluster_monsterAnchor cluster_monsterSearch)

lemma cluster_monstersHandler:
  "monstersHandler ds delay req s = (out, s') \<Longrightarrow> cluster s \<Longrightarrow> cluster s'"
  by (auto simp: monstersHandler_def Let_def
      split: prod.splits outcome.splits jsval.splits if_splits
      dest: cluster_getMonster cluster_findSimilarMonsters)

lemma cluster_serveMonsters:
  "cluster s \<Longrightarrow> cluster (serveMonsters ds delay reqs s)"
proof (induction reqs arbitrary: s)
  case Nil
  then show ?case by simp
next
  case (Cons req reqs)
  obtain out s' where step: "monstersHandler ds delay req s = (out, s')"
    by (cases "monstersHandler ds delay req s")
  with Cons.prems have "cluster s'"
    by (rule cluster_monstersHandler [rotated])
  then show ?case
    using step by (simp add: Cons.IH)
qed

lemma closeCluster_closes:
  "sdk_close ds (clock s) = None \<Longrightarrow> \<not> cluster (snd (closeCluster ds s))"
  by (simp add: closeCluster_def)

lemma characterSearch_closes:
  assumes "cluster s" "\<forall>t. sdk_close ds t = None"
    and "\<not> (sdk_vector_query ds emb = None \<and> \<not> sdk_search_late ds (clock s) \<and>
            sdk_search ds (clock s) ''vector-search-index'' emb 5 = Inr [])"
    and "characterSearch ds delay emb s = (Returned docs, s')"
  shows "\<not> cluster s'"
  using assms
  by (auto simp: characterSearch_def Let_def race_def getCollection_def promise_all_fulfils
        closeCluster_def initCouchbase_connected cluster_issue hydrateCharacters_def
      split: option.splits sum.splits prod.splits if_splits
      dest!: cluster_mapRows)

lemma findSimilarCharacters_closes:
  assumes "characterAnchor ds name s = (Returned emb, s2)" "\<forall>t. sdk_close ds t = None"
    and "\<not> (sdk_vector_query ds emb = None \<and> \<not> sdk_search_late ds (clock s2) \<and>
            sdk_search ds (clock s2) ''vector-search-index'' emb 5 = Inr [])"
  shows "\<not> cluster (snd (findSimilarCharacters ds delay name s))"
proof -
  have c: "cluster s2"
    using assms(1) by (rule characterAnchor_Returned)
  obtain out s3 where search: "characterSearch ds delay emb s2 = (out, s3)"
    by (cases "characterSearch ds delay emb s2")
  show ?thesis
  proof (cases out)
    case (Returned docs)
    with search have "\<not> cluster s3"
      using characterSearch_closes [OF c assms(2) assms(3), of delay docs s3] by simp
    with Returned search assms(1) show ?thesis
      by (simp add: findSimilarCharacters_def)
  next
    case (Thrown e)
    with search assms(1,2) show ?thesis
      by (simp add: findSimilarCharacters_def closeCluster_def)
  next
    case Unsettled
    with search have False
      by (auto simp: characterSearch_def Let_def promise_all_fulfils getCollection_def
          initCouchbase_def closeCluster_def
          split: option.splits sum.splits prod.splits if_splits)
    then show ?thesis ..
  qed
qed

lemma cluster_getCharacter:
  "getCharacter ds name s = (out, s') \<Longrightarrow> cluster s \<Longrightarrow> cluster s'"
  by (auto simp: getCharacter_def getCollection_def Let_def initCouchbase_connected cluster_issue
      split: sum.splits if_splits)

lemma cluster_characterAnchor:
  "characterAnchor ds name s = (out, s') \<Longrightarrow> cluster s \<Longrightarrow> cluster s'"
  by (auto simp: characterAnchor_def
      split: prod.splits outcome.splits sum.splits jsval.splits if_splits
      dest: cluster_getCharacter cluster_initCouchbase)

lemma closes_issue: "closes (issue e s) = closes s + (if e = Close then 1 else 0)"
  by (simp add: closes_def issue_def)

lemma closes_cluster_update [simp]: "closes (s\<lparr>cluster := b\<rparr>) = closes s"
  by (simp add: closes_def)

lemma closes_mapRows:
  "mapRows callback project rows s = (docs, s') \<Longrightarrow> closes s' = closes s"
  using mapRows_trace [of callback project rows s]
  by (simp add: closes_def count_list_0_iff image_iff)

lemma mapRows_after_issue:
  "mapRows callback project rows (issue e s) = (docs, s') \<Longrightarrow>
   cluster s' = cluster s \<and> closes s' = closes (issue e s)"
  by (simp add: cluster_mapRows closes_mapRows)

lemma characterSearch_closes_once:
  assumes "cluster s"
    and "\<not> (sdk_vector_query ds emb = None \<and> \<not> sdk_search_late ds (clock s) \<and>
            sdk_search ds (clock s) ''vector-search-index'' emb 5 = Inr [])"
    and "characterSearch ds delay emb s = (out, s')"
  shows "closes s < closes s' \<or> (\<exists>e. out = Thrown e) \<and> cluster s' \<and> closes s' = closes s"
  using assms
  by (auto simp: characterSearch_def Let_def race_def getCollection_def promise_all_fulfils
        closeCluster_def initCouchbase_connected cluster_issue closes_issue
        hydrateCharacters_def
      split: option.splits sum.splits prod.splits if_splits
      dest!: mapRows_after_issue)

lemma findSimilarCharacters_calls_close:
  assumes "characterAnchor ds name s = (Returned emb, s2)"
    and "\<not> (sdk_vector_query ds emb = None \<and> \<not> sdk_search_late ds (clock s2) \<and>
            sdk_search ds (clock s2) ''vector-search-index'' emb 5 = Inr [])"
  shows "closes s2 < closes (snd (findSimilarCharacters ds delay name s))"
proof -
  have c: "cluster s2"
    using assms(1) by (rule characterAnchor_Returned)
  obtain out s3 where search: "characterSearch ds delay emb s2 = (out, s3)"
    by (cases "characterSearch ds delay emb s2")
  from characterSearch_closes_once [OF c assms(2) search]
  show ?thesis
    using assms(1) search
    by (auto simp: findSimilarCharacters_def closeCluster_def closes_issue
        split: outcome.splits option.splits)
qed


lemma closes_initCouchbase:
  "initCouchbase ds s = (out, s') \<Longrightarrow> closes s' = closes s"
  by (auto simp: initCouchbase_def closes_issue split: if_splits option.splits)

lemma closes_getCharacter:
  "getCharacter ds name s = (out, s') \<Longrightarrow> closes s' = closes s"
  by (auto simp: getCharacter_def getCollection_def Let_def closes_issue
      split: prod.splits outcome.splits sum.splits if_splits
      dest: closes_initCouchbase)

lemma closes_characterAnchor:
  "characterAnchor ds name s = (out, s') \<Longrightarrow> closes s' = closes s"
  by (auto simp: characterAnchor_def
      split: prod.splits outcome.splits sum.splits jsval.splits if_splits
      dest!: closes_getCharacter closes_initCouchbase)

text \<open>
  \<^verbatim>\<open>initCouchbase\<close> is its two steps run one after the other. When two calls are in
  flight at once, each may test the handle before the other assigns it: both connect.
\<close>

lemma initCouchbase_steps:
  "initCouchbase ds s =
     (case initBegin s of
        (None, s') \<Rightarrow> (Returned (), s')
      | (Some t, s') \<Rightarrow> initResume ds t s')"
  by (simp add: initCouchbase_def initBegin_def initResume_def issue_def split: option.splits)

lemma overlapping_calls_connect_twice:
  "initBegin start = (Some 0, \<lparr>cluster = False, trace = [Connect]\<rparr>) \<and>
   initBegin \<lparr>cluster = False, trace = [Connect]\<rparr> =
     (Some 1, \<lparr>cluster = False, trace = [Connect, Connect]\<rparr>) \<and>
   initResume galaxy 0 \<lparr>cluster = False, trace = [Connect, Connect]\<rparr> =
     (Returned (), \<lparr>cluster = True, trace = [Connect, Connect]\<rparr>) \<and>
   initResume galaxy 1 \<lparr>cluster = True, trace = [Connect, Connect]\<rparr> =
     (Returned (), \<lparr>cluster = True, trace = [Connect, Connect]\<rparr>) \<and>
   established galaxy \<lparr>cluster = True, trace = [Connect, Connect]\<rparr> = 2"
  by (simp add: initBegin_def initResume_def start_def clock_def issue_def established_def
      galaxy_def)

section \<open>The example datastores\<close>

lemma capitalize_tatooine: "capitalizeFirstLetter ''tatooine'' = ''Tatooine''"
  by code_simp

lemma capitalize_Tatooine: "capitalizeFirstLetter ''Tatooine'' = ''Tatooine''"
  by code_simp

lemma toLowerCase_Goblin: "toLowerCase ''Goblin'' = ''goblin''"
  by code_simp

lemma clock_connected: "clock (connected docId) = 2"
  by (simp add: clock_def connected_def)

lemma getMonster_galaxy:
  "getMonster galaxy ''Goblin'' start =
     (Returned (JObj [(''name'', JStr ''Tatooine''), (''embedding'', JArr [JNum 1, JNum 2])]),
      connected ''monster::goblin'')"
  by (simp add: getMonster_def toLowerCase_Goblin getCollection_def initCouchbase_def Let_def
      start_def galaxy_def issue_def clock_def connected_def)

lemma monsterAnchor_galaxy:
  "monsterAnchor galaxy ''Goblin'' start = (Returned [JNum 1, JNum 2], connected ''monster::goblin'')"
  by (simp add: monsterAnchor_def getMonster_galaxy initCouchbase_def connected_def)

lemma getCharacter_galaxy:
  "getCharacter galaxy ''tatooine'' start =
     (Returned (JObj [(''name'', JStr ''Tatooine''), (''embedding'', JArr [JNum 1, JNum 2])]),
      connected ''Tatooine'')"
  by (simp add: getCharacter_def capitalize_tatooine getCollection_def initCouchbase_def Let_def
      start_def galaxy_def issue_def clock_def connected_def)

lemma characterAnchor_galaxy:
  "characterAnchor galaxy ''tatooine'' start = (Returned [JNum 1, JNum 2], connected ''Tatooine'')"
  by (simp add: characterAnchor_def getCharacter_galaxy initCouchbase_def connected_def)

lemma galaxy_simps:
  "sdk_connect galaxy t = None"
  "sdk_close galaxy t = None"
  "sdk_vector_query galaxy v = None"
  "sdk_search_late galaxy t = False"
  "sdk_get_late galaxy t = False"
  "sdk_search galaxy t i v n = Inr galaxyRows"
  "sdk_get_projected galaxy t k fs =
     (if k = ''Alderaan'' then Inl (SdkError Timeout ''timeout'')
      else Inr (JObj [(''name'', JStr k)]))"
  by (simp_all add: galaxy_def)

lemma slowGalaxy_simps:
  "sdk_vector_query slowGalaxy v = None"
  "sdk_search_late slowGalaxy t = True"
  "sdk_close slowGalaxy t = None"
  by (simp_all add: slowGalaxy_def galaxy_def)

lemma monsterAnchor_slowGalaxy:
  "monsterAnchor slowGalaxy ''Goblin'' start =
     (Returned [JNum 1, JNum 2], connected ''monster::goblin'')"
  by (simp add: monsterAnchor_def getMonster_def toLowerCase_Goblin getCollection_def
      initCouchbase_def Let_def start_def slowGalaxy_def galaxy_def issue_def clock_def
      connected_def)

lemma characterAnchor_slowGalaxy:
  "characterAnchor slowGalaxy ''tatooine'' start =
     (Returned [JNum 1, JNum 2], connected ''Tatooine'')"
  by (simp add: characterAnchor_def getCharacter_def capitalize_tatooine getCollection_def
      initCouchbase_def Let_def start_def slowGalaxy_def galaxy_def issue_def clock_def
      connected_def)

lemma toLowerCase_Ooze: "toLowerCase ''Ooze'' = ''ooze''"
  by code_simp

lemma capitalize_hoth: "capitalizeFirstLetter ''hoth'' = ''Hoth''"
  by code_simp

lemma getMonster_ooze:
  "getMonster galaxy ''Ooze'' start =
     (Returned (JObj [(''name'', JStr ''Hoth'')]), connected ''monster::ooze'')"
  by (simp add: getMonster_def toLowerCase_Ooze getCollection_def initCouchbase_def Let_def
      start_def galaxy_def issue_def clock_def connected_def)

lemma getCharacter_hoth:
  "getCharacter galaxy ''hoth'' start =
     (Returned (JObj [(''name'', JStr ''Hoth'')]), connected ''Hoth'')"
  by (simp add: getCharacter_def capitalize_hoth getCollection_def initCouchbase_def Let_def
      start_def galaxy_def issue_def clock_def connected_def)

lemma toLowerCase_Ghost: "toLowerCase ''Ghost'' = ''ghost''"
  by code_simp

lemma capitalize_ghost: "capitalizeFirstLetter ''ghost'' = ''Ghost''"
  by code_simp

lemma getMonster_outage:
  "getMonster outage ''Goblin'' start = (Returned JNull, connected ''monster::goblin'')"
  by (simp add: getMonster_def toLowerCase_Goblin getCollection_def initCouchbase_def Let_def
      start_def outage_def galaxy_def issue_def clock_def connected_def)

lemma getMonster_ghost:
  "getMonster galaxy ''Ghost'' start = (Returned JNull, connected ''monster::ghost'')"
  by (simp add: getMonster_def toLowerCase_Ghost getCollection_def initCouchbase_def Let_def
      start_def galaxy_def issue_def clock_def connected_def)

lemma getCharacter_outage:
  "getCharacter outage ''tatooine'' start = (Returned JNull, connected ''Tatooine'')"
  by (simp add: getCharacter_def capitalize_tatooine getCollection_def initCouchbase_def Let_def
      start_def outage_def galaxy_def issue_def clock_def connected_def)

lemma getCharacter_ghost:
  "getCharacter galaxy ''ghost'' start = (Returned JNull, connected ''Ghost'')"
  by (simp add: getCharacter_def capitalize_ghost getCollection_def initCouchbase_def Let_def
      start_def galaxy_def issue_def clock_def connected_def)

lemma getCollection_galaxy:
  "getCollection galaxy start = (Returned (), \<lparr>cluster = True, trace = [Connect]\<rparr>)"
  "getCollection outage start = (Returned (), \<lparr>cluster = True, trace = [Connect]\<rparr>)"
  "getCollection unreachable start =
     (Thrown (SdkError Unavailable ''cluster unreachable''), \<lparr>cluster = False, trace = [Connect]\<rparr>)"
  by (simp_all add: getCollection_def initCouchbase_def start_def galaxy_def outage_def
      unreachable_def issue_def clock_def)

lemma findSimilarMonsters_ghost:
  "findSimilarMonsters galaxy lastFirst ''Ghost'' start =
     (Thrown (Error ''Monster not found: Ghost''), connected ''monster::ghost'')"
  by (simp add: findSimilarMonsters_def monsterAnchor_def getMonster_ghost)

lemma findSimilarCharacters_ghost:
  "findSimilarCharacters galaxy lastFirst ''ghost'' start =
     (Thrown (Error ''Planet not found: ghost''), connected ''Ghost'')"
  by (simp add: findSimilarCharacters_def characterAnchor_def getCharacter_ghost)

lemma characterAnchor_ghost:
  "characterAnchor galaxy ''ghost'' (connected ''Tatooine'') =
     (Thrown (Error ''Planet not found: ghost''),
      \<lparr>cluster = True, trace = [Connect, Get ''Tatooine'', Get ''Ghost'']\<rparr>)"
  by (simp add: characterAnchor_def getCharacter_def capitalize_ghost getCollection_def
      initCouchbase_def Let_def galaxy_def issue_def clock_def connected_def)

section \<open>The claims\<close>

text \<open>
  C1, as stated, fails: a find-similar call for a name that no document has ends with
  the exception of \<^verbatim>\<open>findSimilar\<close> thrown out of the call handler, not with a payload.
\<close>

theorem handler_throws_counterexample:
  "monstersHandler galaxy lastFirst findGhost start =
     (Thrown (Error ''Monster not found: Ghost''), connected ''monster::ghost'') \<and>
   starwarsHandler galaxy lastFirst findGhostPlanet start =
     (Thrown (Error ''Planet not found: ghost''), connected ''Ghost'')"
  by (simp add: monstersHandler_def starwarsHandler_def findGhost_def findGhostPlanet_def
      findSimilarMonsters_ghost findSimilarCharacters_ghost)

text \<open>
  C1, amended. The call handler returns a structured error payload (the flag
  \<^verbatim>\<open>isError\<close> and a message) for the failures it detects itself: for fetch-by-name,
  a name that is absent or empty and an entity the resolver did not find; for
  find-similar, a name that is no string. An exception thrown inside \<^verbatim>\<open>findSimilar\<close>
  (not found, missing embedding, search failure, timeout) propagates out of the call
  handler unchanged.
\<close>

theorem handler_failure_outcomes:
  "(tool req = ''fetch_monster_name'' \<and> \<not> truthy (name_arg req) \<longrightarrow>
    monstersHandler ds delay req s =
      (Returned \<lparr>content_text = Literal ''Monster name is required'', isError = True\<rparr>, s)) \<and>
   (tool req = ''fetch_monster_name'' \<and> name_arg req = JStr n \<and> n \<noteq> [] \<and>
    getMonster ds n s = (Returned doc, s1) \<and> \<not> truthy doc \<longrightarrow>
    monstersHandler ds delay req s =
      (Returned \<lparr>content_text = Literal (''Monster \"'' @ n @ ''\" not found''),
                 isError = True\<rparr>, s1)) \<and>
   (tool req = ''find_monsters_which_are_similar'' \<and> \<not> is_string (name_arg req) \<longrightarrow>
    monstersHandler ds delay req s =
      (Returned \<lparr>content_text = Literal ''Monster name must be a string'', isError = True\<rparr>, s)) \<and>
   (tool req = ''find_monsters_which_are_similar'' \<and> name_arg req = JStr n \<and>
    findSimilarMonsters ds delay n s = (Thrown e, s1) \<longrightarrow>
    monstersHandler ds delay req s = (Thrown e, s1)) \<and>
   (tool req' = ''fetch_planet_name'' \<and> \<not> truthy (name_arg req') \<longrightarrow>
    starwarsHandler ds' delay' req' s' =
      (Returned \<lparr>content_text = Literal ''Planet name is required'', isError = True\<rparr>, s')) \<and>
   (tool req' = ''fetch_planet_name'' \<and> name_arg req' = JStr n' \<and> n' \<noteq> [] \<and>
    getCharacter ds' n' s' = (Returned doc', s1') \<and> \<not> truthy doc' \<longrightarrow>
    starwarsHandler ds' delay' req' s' =
      (Returned \<lparr>content_text = Literal (''Planet \"'' @ n' @ ''\" not found''),
                 isError = True\<rparr>, s1')) \<and>
   (tool req' = ''find_planets_which_are_similar'' \<and> \<not> is_string (name_arg req') \<longrightarrow>
    starwarsHandler ds' delay' req' s' =
      (Returned \<lparr>content_text = Literal ''Planet name must be a string'', isError = True\<rparr>, s')) \<and>
   (tool req' = ''find_planets_which_are_similar'' \<and> name_arg req' = JStr n' \<and>
    findSimilarCharacters ds' delay' n' s' = (Thrown e', s1') \<longrightarrow>
    starwarsHandler ds' delay' req' s' = (Thrown e', s1'))"
proof -
  have not_string: "(case v of JStr n \<Rightarrow> f n | _ \<Rightarrow> d) = d" if "\<not> is_string v"
    for v :: jsval and f :: "string \<Rightarrow> payload outcome \<times> state" and d
    using that by (cases v) simp_all
  show ?thesis
    by (simp add: monstersHandler_def starwarsHandler_def not_string)
qed

theorem handler_failure_outcomes_witness:
  "\<not> truthy JUndefined \<and>
   monstersHandler galaxy lastFirst \<lparr>tool = ''fetch_monster_name'', name_arg = JUndefined\<rparr> start =
     (Returned \<lparr>content_text = Literal ''Monster name is required'', isError = True\<rparr>, start) \<and>
   starwarsHandler galaxy lastFirst \<lparr>tool = ''fetch_planet_name'', name_arg = JUndefined\<rparr> start =
     (Returned \<lparr>content_text = Literal ''Planet name is required'', isError = True\<rparr>, start) \<and>
   ''Ghost'' \<noteq> [] \<and>
   getMonster galaxy ''Ghost'' start = (Returned JNull, connected ''monster::ghost'') \<and>
   \<not> truthy JNull \<and>
   monstersHandler galaxy lastFirst \<lparr>tool = ''fetch_monster_name'', name_arg = JStr ''Ghost''\<rparr>
     start =
     (Returned \<lparr>content_text = Literal ''Monster \"Ghost\" not found'', isError = True\<rparr>,
      connected ''monster::ghost'') \<and>
   getCharacter galaxy ''ghost'' start = (Returned JNull, connected ''Ghost'') \<and>
   starwarsHandler galaxy lastFirst \<lparr>tool = ''fetch_planet_name'', name_arg = JStr ''ghost''\<rparr>
     start =
     (Returned \<lparr>content_text = Literal ''Planet \"ghost\" not found'', isError = True\<rparr>,
      connected ''Ghost'') \<and>
   \<not> is_string (JNum 7) \<and>
   monstersHandler galaxy lastFirst
     \<lparr>tool = ''find_monsters_which_are_similar'', name_arg = JNum 7\<rparr> start =
     (Returned \<lparr>content_text = Literal ''Monster name must be a string'', isError = True\<rparr>,
      start) \<and>
   starwarsHandler galaxy lastFirst
     \<lparr>tool = ''find_planets_which_are_similar'', name_arg = JNum 7\<rparr> start =
     (Returned \<lparr>content_text = Literal ''Planet name must be a string'', isError = True\<rparr>,
      start) \<and>
   findSimilarMonsters galaxy lastFirst ''Ghost'' start =
     (Thrown (Error ''Monster not found: Ghost''), connected ''monster::ghost'') \<and>
   monstersHandler galaxy lastFirst findGhost start =
     (Thrown (Error ''Monster not found: Ghost''), connected ''monster::ghost'') \<and>
   findSimilarCharacters galaxy lastFirst ''ghost'' start =
     (Thrown (Error ''Planet not found: ghost''), connected ''Ghost'') \<and>
   starwarsHandler galaxy lastFirst findGhostPlanet start =
     (Thrown (Error ''Planet not found: ghost''), connected ''Ghost'')"
  using handler_failure_outcomes
    [where req = "\<lparr>tool = ''fetch_monster_name'', name_arg = JUndefined\<rparr>"
       and req' = "\<lparr>tool = ''fetch_planet_name'', name_arg = JUndefined\<rparr>"
       and ds = galaxy and ds' = galaxy and delay = lastFirst and delay' = lastFirst
       and s = start and s' = start]
    handler_failure_outcomes
    [where req = "\<lparr>tool = ''fetch_monster_name'', name_arg = JStr ''Ghost''\<rparr>"
       and req' = "\<lparr>tool = ''fetch_planet_name'', name_arg = JStr ''ghost''\<rparr>"
       and ds = galaxy and ds' = galaxy and delay = lastFirst and delay' = lastFirst
       and s = start and s' = start and n = "''Ghost''" and n' = "''ghost''"
       and doc = JNull and doc' = JNull
       and ?s1.0 = "connected ''monster::ghost''" and s1' = "connected ''Ghost''"]
    handler_failure_outcomes
    [where req = "\<lparr>tool = ''find_monsters_which_are_similar'', name_arg = JNum 7\<rparr>"
       and req' = "\<lparr>tool = ''find_planets_which_are_similar'', name_arg = JNum 7\<rparr>"
       and ds = galaxy and ds' = galaxy and delay = lastFirst and delay' = lastFirst
       and s = start and s' = start]
    handler_failure_outcomes
    [where req = findGhost and req' = findGhostPlanet
       and ds = galaxy and ds' = galaxy and delay = lastFirst and delay' = lastFirst
       and s = start and s' = start and n = "''Ghost''" and n' = "''ghost''"
       and e = "Error ''Monster not found: Ghost''" and e' = "Error ''Planet not found: ghost''"
       and ?s1.0 = "connected ''monster::ghost''" and s1' = "connected ''Ghost''"]
  by (simp add: getMonster_ghost getCharacter_ghost findSimilarMonsters_ghost
      findSimilarCharacters_ghost findGhost_def findGhostPlanet_def)

text \<open>
  C2, as stated, fails: a point-read rejected for lack of connectivity gives the same
  result of the resolver, \<^verbatim>\<open>null\<close>, as a read rejected because the key is missing.
\<close>

theorem unavailable_read_counterexample:
  "sdk_get outage 1 ''monster::goblin'' = Inl (SdkError Unavailable ''cluster unreachable'') \<and>
   sdk_get galaxy 1 ''monster::ghost'' = Inl (SdkError DocumentNotFound ''document not found'') \<and>
   getMonster outage ''Goblin'' start = (Returned JNull, connected ''monster::goblin'') \<and>
   getMonster galaxy ''Ghost'' start = (Returned JNull, connected ''monster::ghost'') \<and>
   sdk_get outage 1 ''Tatooine'' = Inl (SdkError Unavailable ''cluster unreachable'') \<and>
   sdk_get galaxy 1 ''Ghost'' = Inl (SdkError DocumentNotFound ''document not found'') \<and>
   getCharacter outage ''tatooine'' start = (Returned JNull, connected ''Tatooine'') \<and>
   getCharacter galaxy ''ghost'' start = (Returned JNull, connected ''Ghost'')"
  by (simp add: getMonster_outage getMonster_ghost getCharacter_outage getCharacter_ghost)
     (simp add: outage_def galaxy_def)

text \<open>
  C2, amended. For every non-empty name, when the point-read of the resolver is
  rejected, whatever the reason (missing key, timeout, connectivity), the resolver
  returns \<^verbatim>\<open>null\<close>, the result it gives for a missing key; only a failure to
  establish the connection propagates, as the exception of \<^verbatim>\<open>couchbase.connect\<close>.
\<close>

theorem failed_read_resolves_to_null:
  "(name \<noteq> [] \<and> getCollection ds s = (Returned u, s1) \<and>
    sdk_get ds (clock s1) (''monster::'' @ toLowerCase name) = Inl err \<longrightarrow>
    getMonster ds name s =
      (Returned JNull, issue (Get (''monster::'' @ toLowerCase name)) s1)) \<and>
   (name \<noteq> [] \<and> getCollection ds s = (Thrown e, s1) \<longrightarrow>
    getMonster ds name s = (Thrown e, s1)) \<and>
   (name' \<noteq> [] \<and> getCollection ds' s' = (Returned u', s1') \<and>
    sdk_get ds' (clock s1') (capitalizeFirstLetter name') = Inl err' \<longrightarrow>
    getCharacter ds' name' s' =
      (Returned JNull, issue (Get (capitalizeFirstLetter name')) s1')) \<and>
   (name' \<noteq> [] \<and> getCollection ds' s' = (Thrown e', s1') \<longrightarrow>
    getCharacter ds' name' s' = (Thrown e', s1'))"
  by (simp add: getMonster_def getCharacter_def Let_def)

theorem failed_read_resolves_to_null_witness:
  "''Goblin'' \<noteq> [] \<and>
   getCollection outage start = (Returned (), \<lparr>cluster = True, trace = [Connect]\<rparr>) \<and>
   sdk_get outage (clock \<lparr>cluster = True, trace = [Connect]\<rparr>)
     (''monster::'' @ toLowerCase ''Goblin'') =
     Inl (SdkError Unavailable ''cluster unreachable'') \<and>
   getMonster outage ''Goblin'' start =
     (Returned JNull, \<lparr>cluster = True, trace = [Connect, Get ''monster::goblin'']\<rparr>) \<and>
   getCollection unreachable start =
     (Thrown (SdkError Unavailable ''cluster unreachable''),
      \<lparr>cluster = False, trace = [Connect]\<rparr>) \<and>
   getMonster unreachable ''Goblin'' start =
     (Thrown (SdkError Unavailable ''cluster unreachable''),
      \<lparr>cluster = False, trace = [Connect]\<rparr>) \<and>
   sdk_get outage (clock \<lparr>cluster = True, trace = [Connect]\<rparr>)
     (capitalizeFirstLetter ''tatooine'') =
     Inl (SdkError Unavailable ''cluster unreachable'') \<and>
   getCharacter outage ''tatooine'' start =
     (Returned JNull, \<lparr>cluster = True, trace = [Connect, Get ''Tatooine'']\<rparr>) \<and>
   getCharacter unreachable ''tatooine'' start =
     (Thrown (SdkError Unavailable ''cluster unreachable''),
      \<lparr>cluster = False, trace = [Connect]\<rparr>)"
  using failed_read_resolves_to_null
    [where name = "''Goblin''" and ds = outage and s = start and u = "()"
       and ?s1.0 = "\<lparr>cluster = True, trace = [Connect]\<rparr>"
       and err = "SdkError Unavailable ''cluster unreachable''"
       and name' = "''tatooine''" and ds' = outage and s' = start and u' = "()"
       and s1' = "\<lparr>cluster = True, trace = [Connect]\<rparr>"
       and err' = "SdkError Unavailable ''cluster unreachable''"]
    failed_read_resolves_to_null
    [where name = "''Goblin''" and ds = unreachable and s = start
       and e = "SdkError Unavailable ''cluster unreachable''"
       and ?s1.0 = "\<lparr>cluster = False, trace = [Connect]\<rparr>"
       and name' = "''tatooine''" and ds' = unreachable and s' = start
       and e' = "SdkError Unavailable ''cluster unreachable''"
       and s1' = "\<lparr>cluster = False, trace = [Connect]\<rparr>"]
  by (simp add: getCollection_galaxy toLowerCase_Goblin capitalize_tatooine issue_def)
     (simp add: outage_def galaxy_def)

text \<open>
  C3, as stated, fails for the starwars server: the search returns five rows, one
  hydration read out of five fails, and the close of the handle that follows the
  hydration is rejected; \<^verbatim>\<open>findSimilarCharacters\<close> throws instead of returning the
  four remaining candidates.
\<close>

theorem close_failure_counterexample:
  "map (\<lambda>(t, r). characterReadFails stuckGalaxy t r) (List.enumerate 3 galaxyRows) =
     [False, True, False, False, False] \<and>
   findSimilarCharacters stuckGalaxy lastFirst ''tatooine'' start =
     (Thrown (SdkError Unavailable ''close failed''),
      \<lparr>cluster = True,
       trace = [Connect, Get ''Tatooine'', Search ''vector-search-index'' [JNum 1, JNum 2] 5,
                GetProjected ''Hoth'' characterFields, GetProjected ''Alderaan'' characterFields,
                GetProjected ''Naboo'' characterFields, GetProjected ''Endor'' characterFields,
                GetProjected ''Dagobah'' characterFields, Close, Close]\<rparr>)"
  by code_simp

text \<open>
  C3, amended. When the resolver has produced the embedding and the search has answered
  in time with its rows, \<^verbatim>\<open>findSimilar\<close> succeeds, whatever the hydration reads do,
  in the starwars server provided that the close of the handle issued after the
  hydration succeeds. Its result is the hydrated candidates, among the first five rows,
  whose read did not fail, so each failed read drops that one candidate and no other.
  The number of results plus the number of failed reads is the number of candidates:
  with exactly one failed read among five candidates there are four results. An empty
  list of rows gives an empty list of results, not an error.
\<close>

theorem hydration_failure_drops_one_candidate:
  "(monsterAnchor ds name s = (Returned emb, s2) \<and> sdk_vector_query ds emb = None \<and>
    \<not> sdk_search_late ds (clock s2) \<and>
    sdk_search ds (clock s2) ''pdf_search'' emb 5 = Inr rows \<longrightarrow>
    (\<exists>out. fst (findSimilarMonsters ds delay name s) = Returned (JArr out) \<and>
       out = map (\<lambda>(t, r). hydrateMonster ds t r)
               (filter (\<lambda>(t, r). \<not> monsterReadFails ds t r)
                  (List.enumerate (Suc (clock s2)) (take 5 rows))) \<and>
       length out +
         length (filter (\<lambda>(t, r). monsterReadFails ds t r)
                   (List.enumerate (Suc (clock s2)) (take 5 rows))) = min (length rows) 5 \<and>
       (rows = [] \<longrightarrow> out = []))) \<and>
   (characterAnchor ds' name' s' = (Returned emb', s2') \<and> sdk_vector_query ds' emb' = None \<and>
    \<not> sdk_search_late ds' (clock s2') \<and>
    sdk_search ds' (clock s2') ''vector-search-index'' emb' 5 = Inr rows' \<and>
    (rows' = [] \<or> sdk_close ds' (Suc (clock s2') + min (length rows') 5) = None) \<longrightarrow>
    (\<exists>out. fst (findSimilarCharacters ds' delay' name' s') = Returned (JArr out) \<and>
       out = map (\<lambda>(t, r). hydrateCharacter ds' t r)
               (filter (\<lambda>(t, r). \<not> characterReadFails ds' t r)
                  (List.enumerate (Suc (clock s2')) (take 5 rows'))) \<and>
       length out +
         length (filter (\<lambda>(t, r). characterReadFails ds' t r)
                   (List.enumerate (Suc (clock s2')) (take 5 rows'))) = min (length rows') 5 \<and>
       (rows' = [] \<longrightarrow> out = [])))"
proof (intro conjI impI)
  assume h: "monsterAnchor ds name s = (Returned emb, s2) \<and> sdk_vector_query ds emb = None \<and>
    \<not> sdk_search_late ds (clock s2) \<and>
    sdk_search ds (clock s2) ''pdf_search'' emb 5 = Inr rows"
  let ?cands = "List.enumerate (Suc (clock s2)) (take 5 rows)"
  have "length (filter (\<lambda>(t, r). \<not> monsterReadFails ds t r) ?cands) +
        length (filter (\<lambda>(t, r). monsterReadFails ds t r) ?cands) = length ?cands"
    using sum_length_filter_compl [of "\<lambda>(t, r). monsterReadFails ds t r" ?cands]
    by (simp add: case_prod_unfold)
  then show "\<exists>out. fst (findSimilarMonsters ds delay name s) = Returned (JArr out) \<and>
       out = map (\<lambda>(t, r). hydrateMonster ds t r)
               (filter (\<lambda>(t, r). \<not> monsterReadFails ds t r) ?cands) \<and>
       length out + length (filter (\<lambda>(t, r). monsterReadFails ds t r) ?cands) =
         min (length rows) 5 \<and>
       (rows = [] \<longrightarrow> out = [])"
    using h by (simp add: findSimilarMonsters_hydrated)
next
  assume h: "characterAnchor ds' name' s' = (Returned emb', s2') \<and>
    sdk_vector_query ds' emb' = None \<and> \<not> sdk_search_late ds' (clock s2') \<and>
    sdk_search ds' (clock s2') ''vector-search-index'' emb' 5 = Inr rows' \<and>
    (rows' = [] \<or> sdk_close ds' (Suc (clock s2') + min (length rows') 5) = None)"
  let ?cands = "List.enumerate (Suc (clock s2')) (take 5 rows')"
  have "length (filter (\<lambda>(t, r). \<not> characterReadFails ds' t r) ?cands) +
        length (filter (\<lambda>(t, r). characterReadFails ds' t r) ?cands) = length ?cands"
    using sum_length_filter_compl [of "\<lambda>(t, r). characterReadFails ds' t r" ?cands]
    by (simp add: case_prod_unfold)
  moreover have "findSimilarCharacters ds' delay' name' s' =
    (Returned (JArr (map (\<lambda>(t, r). hydrateCharacter ds' t r)
        (filter (\<lambda>(t, r). \<not> characterReadFails ds' t r) ?cands))),
     if rows' = [] then s2'\<lparr>trace := trace s2' @ [Search ''vector-search-index'' emb' 5]\<rparr>
     else s2'\<lparr>cluster := False,
            trace := trace s2' @ Search ''vector-search-index'' emb' 5 #
              map (\<lambda>r. GetProjected (row_id r) characterFields) (take 5 rows') @ [Close]\<rparr>)"
    using h by (intro findSimilarCharacters_hydrated) simp_all
  ultimately show "\<exists>out. fst (findSimilarCharacters ds' delay' name' s') = Returned (JArr out) \<and>
       out = map (\<lambda>(t, r). hydrateCharacter ds' t r)
               (filter (\<lambda>(t, r). \<not> characterReadFails ds' t r) ?cands) \<and>
       length out + length (filter (\<lambda>(t, r). characterReadFails ds' t r) ?cands) =
         min (length rows') 5 \<and>
       (rows' = [] \<longrightarrow> out = [])"
    by simp
qed

theorem hydration_failure_drops_one_candidate_witness:
  "monsterAnchor galaxy ''Goblin'' start =
     (Returned [JNum 1, JNum 2], connected ''monster::goblin'') \<and>
   sdk_vector_query galaxy [JNum 1, JNum 2] = None \<and>
   \<not> sdk_search_late galaxy (clock (connected ''monster::goblin'')) \<and>
   sdk_search galaxy (clock (connected ''monster::goblin'')) ''pdf_search'' [JNum 1, JNum 2] 5 =
     Inr galaxyRows \<and>
   fst (findSimilarMonsters galaxy lastFirst ''Goblin'' start) =
     Returned (JArr
       [JObj [(''name'', JStr ''Hoth''), (''score'', JNum 5), (''id'', JStr ''Hoth'')],
        JObj [(''name'', JStr ''Naboo''), (''score'', JNum 3), (''id'', JStr ''Naboo'')],
        JObj [(''name'', JStr ''Endor''), (''score'', JNum 2), (''id'', JStr ''Endor'')],
        JObj [(''name'', JStr ''Dagobah''), (''score'', JNum 1), (''id'', JStr ''Dagobah'')]]) \<and>
   characterAnchor galaxy ''tatooine'' start = (Returned [JNum 1, JNum 2], connected ''Tatooine'') \<and>
   sdk_search galaxy (clock (connected ''Tatooine'')) ''vector-search-index'' [JNum 1, JNum 2] 5 =
     Inr galaxyRows \<and>
   sdk_close galaxy (Suc (clock (connected ''Tatooine'')) + min (length galaxyRows) 5) = None \<and>
   (\<exists>out. fst (findSimilarCharacters galaxy lastFirst ''tatooine'' start) = Returned (JArr out) \<and>
      length out = 4)"
  using hydration_failure_drops_one_candidate
    [where ds = galaxy and name = "''Goblin''" and s = start and emb = "[JNum 1, JNum 2]"
       and ?s2.0 = "connected ''monster::goblin''" and rows = galaxyRows and delay = lastFirst
       and ds' = galaxy and name' = "''tatooine''" and s' = start and emb' = "[JNum 1, JNum 2]"
       and s2' = "connected ''Tatooine''" and rows' = galaxyRows and delay' = lastFirst]
  by (simp add: monsterAnchor_galaxy characterAnchor_galaxy galaxy_simps clock_connected
      galaxyRows_def hydrateMonster_def monsterReadFails_def characterReadFails_def
      hydrateCharacter_def race_def)

text \<open>
  C4. The result of \<^verbatim>\<open>findSimilar\<close> does not depend on the order in which the
  hydration reads complete, and the identifiers and scores of its elements are, in this
  order, a subsequence of those of the rows returned by the search: dropping a failed
  candidate never reorders the others.
\<close>

theorem result_order_is_search_order:
  "findSimilarMonsters ds delay name s = findSimilarMonsters ds delay2 name s \<and>
   findSimilarCharacters ds' delay' name' s' = findSimilarCharacters ds' delay2' name' s' \<and>
   (monsterAnchor ds name s = (Returned emb, s2) \<and> sdk_vector_query ds emb = None \<and>
    \<not> sdk_search_late ds (clock s2) \<and>
    sdk_search ds (clock s2) ''pdf_search'' emb 5 = Inr rows \<longrightarrow>
    (\<exists>out. fst (findSimilarMonsters ds delay name s) = Returned (JArr out) \<and>
       subseq (map matchOf out) (map rowMatch rows))) \<and>
   (characterAnchor ds' name' s' = (Returned emb', s2') \<and> sdk_vector_query ds' emb' = None \<and>
    \<not> sdk_search_late ds' (clock s2') \<and>
    sdk_search ds' (clock s2') ''vector-search-index'' emb' 5 = Inr rows' \<and>
    (rows' = [] \<or> sdk_close ds' (Suc (clock s2') + min (length rows') 5) = None) \<longrightarrow>
    (\<exists>out. fst (findSimilarCharacters ds' delay' name' s') = Returned (JArr out) \<and>
       subseq (map matchOf out) (map rowMatch rows')))"
proof (intro conjI impI)
  show "findSimilarMonsters ds delay name s = findSimilarMonsters ds delay2 name s"
    by (rule findSimilarMonsters_delay)
  show "findSimilarCharacters ds' delay' name' s' = findSimilarCharacters ds' delay2' name' s'"
    by (rule findSimilarCharacters_delay)
next
  assume "monsterAnchor ds name s = (Returned emb, s2) \<and> sdk_vector_query ds emb = None \<and>
    \<not> sdk_search_late ds (clock s2) \<and>
    sdk_search ds (clock s2) ''pdf_search'' emb 5 = Inr rows"
  then have "fst (findSimilarMonsters ds delay name s) =
    Returned (JArr (map (\<lambda>(t, r). hydrateMonster ds t r)
        (filter (\<lambda>(t, r). \<not> monsterReadFails ds t r)
           (List.enumerate (Suc (clock s2)) (take 5 rows)))))"
    by (simp add: findSimilarMonsters_hydrated)
  moreover have "subseq
    (map matchOf (map (\<lambda>(t, r). hydrateMonster ds t r)
       (filter (\<lambda>(t, r). \<not> monsterReadFails ds t r)
          (List.enumerate (Suc (clock s2)) (take 5 rows)))))
    (map rowMatch rows)"
    by (rule subseq_survivors) (rule matchOf_hydrateMonster)
  ultimately show "\<exists>out. fst (findSimilarMonsters ds delay name s) = Returned (JArr out) \<and>
       subseq (map matchOf out) (map rowMatch rows)"
    by blast
next
  assume h: "characterAnchor ds' name' s' = (Returned emb', s2') \<and>
    sdk_vector_query ds' emb' = None \<and> \<not> sdk_search_late ds' (clock s2') \<and>
    sdk_search ds' (clock s2') ''vector-search-index'' emb' 5 = Inr rows' \<and>
    (rows' = [] \<or> sdk_close ds' (Suc (clock s2') + min (length rows') 5) = None)"
  have "findSimilarCharacters ds' delay' name' s' =
    (Returned (JArr (map (\<lambda>(t, r). hydrateCharacter ds' t r)
        (filter (\<lambda>(t, r). \<not> characterReadFails ds' t r)
           (List.enumerate (Suc (clock s2')) (take 5 rows'))))),
     if rows' = [] then s2'\<lparr>trace := trace s2' @ [Search ''vector-search-index'' emb' 5]\<rparr>
     else s2'\<lparr>cluster := False,
            trace := trace s2' @ Search ''vector-search-index'' emb' 5 #
              map (\<lambda>r. GetProjected (row_id r) characterFields) (take 5 rows') @ [Close]\<rparr>)"
    using h by (intro findSimilarCharacters_hydrated) simp_all
  then have "fst (findSimilarCharacters ds' delay' name' s') =
    Returned (JArr (map (\<lambda>(t, r). hydrateCharacter ds' t r)
        (filter (\<lambda>(t, r). \<not> characterReadFails ds' t r)
           (List.enumerate (Suc (clock s2')) (take 5 rows')))))"
    by simp
  moreover have "subseq
    (map matchOf (map (\<lambda>(t, r). hydrateCharacter ds' t r)
       (filter (\<lambda>(t, r). \<not> characterReadFails ds' t r)
          (List.enumerate (Suc (clock s2')) (take 5 rows')))))
    (map rowMatch rows')"
    by (rule subseq_survivors) (rule matchOf_hydrateCharacter)
  ultimately show "\<exists>out. fst (findSimilarCharacters ds' delay' name' s') = Returned (JArr out) \<and>
       subseq (map matchOf out) (map rowMatch rows')"
    by blast
qed

theorem result_order_is_search_order_witness:
  "monsterAnchor galaxy ''Goblin'' start =
     (Returned [JNum 1, JNum 2], connected ''monster::goblin'') \<and>
   sdk_vector_query galaxy [JNum 1, JNum 2] = None \<and>
   \<not> sdk_search_late galaxy (clock (connected ''monster::goblin'')) \<and>
   sdk_search galaxy (clock (connected ''monster::goblin'')) ''pdf_search'' [JNum 1, JNum 2] 5 =
     Inr galaxyRows \<and>
   (\<exists>out. fst (findSimilarMonsters galaxy lastFirst ''Goblin'' start) = Returned (JArr out) \<and>
      subseq (map matchOf out) (map rowMatch galaxyRows)) \<and>
   characterAnchor galaxy ''tatooine'' start = (Returned [JNum 1, JNum 2], connected ''Tatooine'') \<and>
   sdk_search galaxy (clock (connected ''Tatooine'')) ''vector-search-index'' [JNum 1, JNum 2] 5 =
     Inr galaxyRows \<and>
   sdk_close galaxy (Suc (clock (connected ''Tatooine'')) + min (length galaxyRows) 5) = None \<and>
   (\<exists>out. fst (findSimilarCharacters galaxy lastFirst ''tatooine'' start) = Returned (JArr out) \<and>
      subseq (map matchOf out) (map rowMatch galaxyRows))"
  using result_order_is_search_order
    [where ds = galaxy and name = "''Goblin''" and s = start and emb = "[JNum 1, JNum 2]"
       and ?s2.0 = "connected ''monster::goblin''" and rows = galaxyRows and delay = lastFirst
       and ds' = galaxy and name' = "''tatooine''" and s' = start and emb' = "[JNum 1, JNum 2]"
       and s2' = "connected ''Tatooine''" and rows' = galaxyRows and delay' = lastFirst]
  by (simp add: monsterAnchor_galaxy characterAnchor_galaxy galaxy_simps clock_connected)

text \<open>
  C5, as stated, fails for the starwars server: the search does not answer before its
  timer fires and the close of the handle in the \<^verbatim>\<open>catch\<close> block is rejected; the
  error thrown is the one of the close, not the timeout error.
\<close>

theorem timeout_replaced_counterexample:
  "sdk_search_late slowStuckGalaxy 2 \<and>
   findSimilarCharacters slowStuckGalaxy lastFirst ''tatooine'' start =
     (Thrown (SdkError Unavailable ''close failed''),
      \<lparr>cluster = True,
       trace = [Connect, Get ''Tatooine'', Search ''vector-search-index'' [JNum 1, JNum 2] 5,
                Close]\<rparr>)"
  by code_simp

text \<open>
  C5, amended. When the resolver has produced the embedding and the search, raced
  against its timer, is rejected, \<^verbatim>\<open>findSimilar\<close> throws: no list is returned, and
  after the search no hydration read is issued (the trace ends with the search,
  followed in the starwars server by the close of the handle). In the monsters server,
  and in the starwars server when the close of the handle in the \<^verbatim>\<open>catch\<close> block
  succeeds, the error thrown is \<^verbatim>\<open>Error("Vector search failed: " + message)\<close>, where
  the message is \<^verbatim>\<open>Search timeout\<close> when the search has not answered as its timer
  fires.
\<close>

theorem search_timeout_fails_whole_operation:
  "(monsterAnchor ds name s = (Returned emb, s2) \<and> sdk_vector_query ds emb = None \<and>
    race (sdk_search_late ds (clock s2)) (sdk_search ds (clock s2) ''pdf_search'' emb 5)
      ''Search timeout'' = Inl e \<longrightarrow>
    findSimilarMonsters ds delay name s =
      (Thrown (Error (''Vector search failed: '' @ err_message e)),
       s2\<lparr>trace := trace s2 @ [Search ''pdf_search'' emb 5]\<rparr>) \<and>
    (sdk_search_late ds (clock s2) \<longrightarrow> err_message e = ''Search timeout'')) \<and>
   (characterAnchor ds' name' s' = (Returned emb', s2') \<and> sdk_vector_query ds' emb' = None \<and>
    race (sdk_search_late ds' (clock s2'))
      (sdk_search ds' (clock s2') ''vector-search-index'' emb' 5) ''Search timeout'' = Inl e' \<longrightarrow>
    (\<exists>thrown s3. findSimilarCharacters ds' delay' name' s' = (Thrown thrown, s3) \<and>
       trace s3 = trace s2' @ [Search ''vector-search-index'' emb' 5, Close] \<and>
       (sdk_close ds' (Suc (clock s2')) = None \<longrightarrow>
          thrown = Error (''Vector search failed: '' @ err_message e') \<and> \<not> cluster s3)) \<and>
    (sdk_search_late ds' (clock s2') \<longrightarrow> err_message e' = ''Search timeout''))"
proof (intro conjI impI)
  assume h: "monsterAnchor ds name s = (Returned emb, s2) \<and> sdk_vector_query ds emb = None \<and>
    race (sdk_search_late ds (clock s2)) (sdk_search ds (clock s2) ''pdf_search'' emb 5)
      ''Search timeout'' = Inl e"
  then show "findSimilarMonsters ds delay name s =
      (Thrown (Error (''Vector search failed: '' @ err_message e)),
       s2\<lparr>trace := trace s2 @ [Search ''pdf_search'' emb 5]\<rparr>)"
    by (simp add: findSimilarMonsters_def monsterSearch_rejected issue_def)
  assume "sdk_search_late ds (clock s2)"
  with h show "err_message e = ''Search timeout''"
    by (auto simp: race_def)
next
  assume h: "characterAnchor ds' name' s' = (Returned emb', s2') \<and>
    sdk_vector_query ds' emb' = None \<and>
    race (sdk_search_late ds' (clock s2'))
      (sdk_search ds' (clock s2') ''vector-search-index'' emb' 5) ''Search timeout'' = Inl e'"
  then have "cluster s2'"
    by (auto dest: characterAnchor_Returned)
  with h show "\<exists>thrown s3. findSimilarCharacters ds' delay' name' s' = (Thrown thrown, s3) \<and>
       trace s3 = trace s2' @ [Search ''vector-search-index'' emb' 5, Close] \<and>
       (sdk_close ds' (Suc (clock s2')) = None \<longrightarrow>
          thrown = Error (''Vector search failed: '' @ err_message e') \<and> \<not> cluster s3)"
    by (cases "sdk_close ds' (Suc (clock s2'))")
       (simp_all add: findSimilarCharacters_def characterSearch_rejected closeCluster_def
          issue_def clock_def)
  assume "sdk_search_late ds' (clock s2')"
  with h show "err_message e' = ''Search timeout''"
    by (auto simp: race_def)
qed

theorem search_timeout_fails_whole_operation_witness:
  "monsterAnchor slowGalaxy ''Goblin'' start =
     (Returned [JNum 1, JNum 2], connected ''monster::goblin'') \<and>
   sdk_vector_query slowGalaxy [JNum 1, JNum 2] = None \<and>
   sdk_search_late slowGalaxy (clock (connected ''monster::goblin'')) \<and>
   race (sdk_search_late slowGalaxy (clock (connected ''monster::goblin'')))
     (sdk_search slowGalaxy (clock (connected ''monster::goblin'')) ''pdf_search''
        [JNum 1, JNum 2] 5) ''Search timeout'' = Inl (Error ''Search timeout'') \<and>
   findSimilarMonsters slowGalaxy lastFirst ''Goblin'' start =
     (Thrown (Error ''Vector search failed: Search timeout''),
      \<lparr>cluster = True,
       trace = [Connect, Get ''monster::goblin'', Search ''pdf_search'' [JNum 1, JNum 2] 5]\<rparr>) \<and>
   characterAnchor slowGalaxy ''tatooine'' start =
     (Returned [JNum 1, JNum 2], connected ''Tatooine'') \<and>
   sdk_search_late slowGalaxy (clock (connected ''Tatooine'')) \<and>
   race (sdk_search_late slowGalaxy (clock (connected ''Tatooine'')))
     (sdk_search slowGalaxy (clock (connected ''Tatooine'')) ''vector-search-index''
        [JNum 1, JNum 2] 5) ''Search timeout'' = Inl (Error ''Search timeout'') \<and>
   sdk_close slowGalaxy (Suc (clock (connected ''Tatooine''))) = None \<and>
   (\<exists>s3. findSimilarCharacters slowGalaxy lastFirst ''tatooine'' start =
       (Thrown (Error ''Vector search failed: Search timeout''), s3) \<and>
     trace s3 = [Connect, Get ''Tatooine'', Search ''vector-search-index'' [JNum 1, JNum 2] 5,
                 Close])"
  using search_timeout_fails_whole_operation
    [where ds = slowGalaxy and name = "''Goblin''" and s = start and emb = "[JNum 1, JNum 2]"
       and ?s2.0 = "connected ''monster::goblin''" and delay = lastFirst
       and e = "Error ''Search timeout''"
       and ds' = slowGalaxy and name' = "''tatooine''" and s' = start
       and emb' = "[JNum 1, JNum 2]" and s2' = "connected ''Tatooine''" and delay' = lastFirst
       and e' = "Error ''Search timeout''"]
  by (auto simp: monsterAnchor_slowGalaxy characterAnchor_slowGalaxy slowGalaxy_simps
      connected_def race_def)

text \<open>
  C6. When the resolved document is there but has no \<^verbatim>\<open>embedding\<close> attribute,
  \<^verbatim>\<open>findSimilar\<close> throws \<^verbatim>\<open>Error("No embedding found for ...")\<close>, an error other
  than every not-found error, and the state it leaves is the state the resolver left:
  the calls issued are the connect, if the handle was null, and the one read of the
  resolver, and no search.
\<close>

theorem missing_embedding_fails_without_search:
  "(getMonster ds name s = (Returned doc, s1) \<and> truthy doc \<and>
    property doc ''embedding'' = Inr JUndefined \<longrightarrow>
    findSimilarMonsters ds delay name s =
      (Thrown (Error (''No embedding found for monster: '' @ name)), s1) \<and>
    trace s1 = trace s @ (if cluster s then [] else [Connect]) @
                 [Get (''monster::'' @ toLowerCase name)] \<and>
    Error (''No embedding found for monster: '' @ name) \<noteq>
      Error (''Monster not found: '' @ other)) \<and>
   (getCharacter ds' name' s' = (Returned doc', s1') \<and> truthy doc' \<and>
    property doc' ''embedding'' = Inr JUndefined \<longrightarrow>
    findSimilarCharacters ds' delay' name' s' =
      (Thrown (Error (''No embedding found for planet: '' @ name')), s1') \<and>
    trace s1' = trace s' @ (if cluster s' then [] else [Connect]) @
                  [Get (capitalizeFirstLetter name')] \<and>
    Error (''No embedding found for planet: '' @ name') \<noteq>
      Error (''Planet not found: '' @ other'))"
proof (intro conjI impI)
  assume h: "getMonster ds name s = (Returned doc, s1) \<and> truthy doc \<and>
    property doc ''embedding'' = Inr JUndefined"
  then show "findSimilarMonsters ds delay name s =
      (Thrown (Error (''No embedding found for monster: '' @ name)), s1)"
    by (simp add: findSimilarMonsters_def monsterAnchor_def)
  from h show "trace s1 = trace s @ (if cluster s then [] else [Connect]) @
                 [Get (''monster::'' @ toLowerCase name)]"
    by (intro getMonster_trace [of ds _ _ doc]) simp
  show "Error (''No embedding found for monster: '' @ name) \<noteq>
      Error (''Monster not found: '' @ other)"
    by simp
next
  assume h: "getCharacter ds' name' s' = (Returned doc', s1') \<and> truthy doc' \<and>
    property doc' ''embedding'' = Inr JUndefined"
  then show "findSimilarCharacters ds' delay' name' s' =
      (Thrown (Error (''No embedding found for planet: '' @ name')), s1')"
    by (simp add: findSimilarCharacters_def characterAnchor_def)
  from h show "trace s1' = trace s' @ (if cluster s' then [] else [Connect]) @
                  [Get (capitalizeFirstLetter name')]"
    by (intro getCharacter_trace [of ds' _ _ doc']) simp
  show "Error (''No embedding found for planet: '' @ name') \<noteq>
      Error (''Planet not found: '' @ other')"
    by simp
qed

theorem missing_embedding_fails_without_search_witness:
  "getMonster galaxy ''Ooze'' start =
     (Returned (JObj [(''name'', JStr ''Hoth'')]), connected ''monster::ooze'') \<and>
   truthy (JObj [(''name'', JStr ''Hoth'')]) \<and>
   property (JObj [(''name'', JStr ''Hoth'')]) ''embedding'' = Inr JUndefined \<and>
   findSimilarMonsters galaxy lastFirst ''Ooze'' start =
     (Thrown (Error ''No embedding found for monster: Ooze''),
      \<lparr>cluster = True, trace = [Connect, Get ''monster::ooze'']\<rparr>) \<and>
   getCharacter galaxy ''hoth'' start =
     (Returned (JObj [(''name'', JStr ''Hoth'')]), connected ''Hoth'') \<and>
   findSimilarCharacters galaxy lastFirst ''hoth'' start =
     (Thrown (Error ''No embedding found for planet: hoth''),
      \<lparr>cluster = True, trace = [Connect, Get ''Hoth'']\<rparr>)"
  using missing_embedding_fails_without_search
    [where ds = galaxy and name = "''Ooze''" and s = start
       and doc = "JObj [(''name'', JStr ''Hoth'')]" and ?s1.0 = "connected ''monster::ooze''"
       and delay = lastFirst
       and ds' = galaxy and name' = "''hoth''" and s' = start
       and doc' = "JObj [(''name'', JStr ''Hoth'')]" and s1' = "connected ''Hoth''"
       and delay' = lastFirst]
  by (simp add: getMonster_ooze getCharacter_hoth connected_def)

text \<open>
  C7. For an empty or absent name, the resolver and both tool operations answer with an
  invalid-argument error before any datastore call. The resolvers throw
  \<^verbatim>\<open>"... name is required"\<close> on the empty name. The fetch operation returns an error
  payload with that message when the name is absent, \<^verbatim>\<open>null\<close> or empty. The
  find-similar operation returns the error payload \<^verbatim>\<open>"... name must be a string"\<close>
  when the name is absent or \<^verbatim>\<open>null\<close>, and on the empty name the error of the
  resolver. In every case the state is the one before the call: the handle is untouched
  and the trace has no new connect, read or search.
\<close>

theorem empty_name_rejected_before_any_call:
  "getMonster ds [] s = (Thrown (Error ''Monster name is required''), s) \<and>
   getCharacter ds [] s = (Thrown (Error ''Planet name is required''), s) \<and>
   monstersHandler ds delay \<lparr>tool = ''fetch_monster_name'', name_arg = JUndefined\<rparr> s =
     (Returned \<lparr>content_text = Literal ''Monster name is required'', isError = True\<rparr>, s) \<and>
   monstersHandler ds delay \<lparr>tool = ''fetch_monster_name'', name_arg = JNull\<rparr> s =
     (Returned \<lparr>content_text = Literal ''Monster name is required'', isError = True\<rparr>, s) \<and>
   monstersHandler ds delay \<lparr>tool = ''fetch_monster_name'', name_arg = JStr []\<rparr> s =
     (Returned \<lparr>content_text = Literal ''Monster name is required'', isError = True\<rparr>, s) \<and>
   monstersHandler ds delay
     \<lparr>tool = ''find_monsters_which_are_similar'', name_arg = JUndefined\<rparr> s =
     (Returned \<lparr>content_text = Literal ''Monster name must be a string'', isError = True\<rparr>, s) \<and>
   monstersHandler ds delay \<lparr>tool = ''find_monsters_which_are_similar'', name_arg = JNull\<rparr> s =
     (Returned \<lparr>content_text = Literal ''Monster name must be a string'', isError = True\<rparr>, s) \<and>
   monstersHandler ds delay \<lparr>tool = ''find_monsters_which_are_similar'', name_arg = JStr []\<rparr> s =
     (Thrown (Error ''Monster name is required''), s) \<and>
   starwarsHandler ds delay \<lparr>tool = ''fetch_planet_name'', name_arg = JUndefined\<rparr> s =
     (Returned \<lparr>content_text = Literal ''Planet name is required'', isError = True\<rparr>, s) \<and>
   starwarsHandler ds delay \<lparr>tool = ''fetch_planet_name'', name_arg = JNull\<rparr> s =
     (Returned \<lparr>content_text = Literal ''Planet name is required'', isError = True\<rparr>, s) \<and>
   starwarsHandler ds delay \<lparr>tool = ''fetch_planet_name'', name_arg = JStr []\<rparr> s =
     (Returned \<lparr>content_text = Literal ''Planet name is required'', isError = True\<rparr>, s) \<and>
   starwarsHandler ds delay
     \<lparr>tool = ''find_planets_which_are_similar'', name_arg = JUndefined\<rparr> s =
     (Returned \<lparr>content_text = Literal ''Planet name must be a string'', isError = True\<rparr>, s) \<and>
   starwarsHandler ds delay \<lparr>tool = ''find_planets_which_are_similar'', name_arg = JNull\<rparr> s =
     (Returned \<lparr>content_text = Literal ''Planet name must be a string'', isError = True\<rparr>, s) \<and>
   starwarsHandler ds delay \<lparr>tool = ''find_planets_which_are_similar'', name_arg = JStr []\<rparr> s =
     (Thrown (Error ''Planet name is required''), s)"
  by (simp add: getMonster_def getCharacter_def monstersHandler_def starwarsHandler_def
      findSimilarMonsters_def findSimilarCharacters_def monsterAnchor_def characterAnchor_def)

text \<open>
  C8, as stated, fails for the starwars server: two find-similar calls in a row set the
  connection up twice and close it twice, and after one such call the handle is null.
\<close>

theorem handle_torn_down_counterexample:
  "established galaxy (serveStarwars galaxy lastFirst [findTatooine, findTatooine] start) = 2 \<and>
   \<not> cluster (serveStarwars galaxy lastFirst [findTatooine] start) \<and>
   count_list (trace (serveStarwars galaxy lastFirst [findTatooine, findTatooine] start)) Close = 2"
  by code_simp

text \<open>
  C8, amended. When the tool calls of a process are served one after the other: in the
  monsters server the handle is established lazily and at most once, and is never
  closed (at most one connection setup succeeds, no close is issued, and a handle that
  is set stays set); in both servers \<^verbatim>\<open>initCouchbase\<close> connects only when the handle
  is null. In the starwars server the handle is not kept for the life of the process. A
  find-similar call that fails before its search (entity not found, no embedding) ends
  in the state that step left: no close is issued and a handle that was set is still
  set. Once \<^verbatim>\<open>findSimilarCharacters\<close> has the embedding and its search fails or
  returns at least one row, it calls \<^verbatim>\<open>cluster.close()\<close> before it ends, and when
  the closes succeed it leaves the handle null, so that the next operation connects
  again.
\<close>

theorem handle_lifecycle:
  "established ds (serveMonsters ds delay reqs start) \<le> 1 \<and>
   Close \<notin> set (trace (serveMonsters ds delay reqs start)) \<and>
   (cluster s \<longrightarrow> cluster (serveMonsters ds delay reqs s)) \<and>
   (cluster s \<longrightarrow> initCouchbase ds s = (Returned (), s)) \<and>
   (characterAnchor ds' name s' = (Thrown e, s1) \<longrightarrow>
    findSimilarCharacters ds' delay' name s' = (Thrown e, s1) \<and> closes s1 = closes s' \<and>
    (cluster s' \<longrightarrow> cluster s1)) \<and>
   (characterAnchor ds' name s' = (Returned emb, s2) \<and>
    \<not> (sdk_vector_query ds' emb = None \<and> \<not> sdk_search_late ds' (clock s2) \<and>
       sdk_search ds' (clock s2) ''vector-search-index'' emb 5 = Inr []) \<longrightarrow>
    closes s' < closes (snd (findSimilarCharacters ds' delay' name s')) \<and>
    ((\<forall>t. sdk_close ds' t = None) \<longrightarrow>
       \<not> cluster (snd (findSimilarCharacters ds' delay' name s'))))"
proof (intro conjI impI)
  have "handleKept ds (serveMonsters ds delay reqs start)"
    by (rule handleKept_serveMonsters) (rule handleKept_start)
  then show "established ds (serveMonsters ds delay reqs start) \<le> 1"
    and "Close \<notin> set (trace (serveMonsters ds delay reqs start))"
    by (simp_all add: handleKept_def)
next
  assume "cluster s"
  then show "cluster (serveMonsters ds delay reqs s)"
    by (rule cluster_serveMonsters)
next
  assume "cluster s"
  then show "initCouchbase ds s = (Returned (), s)"
    by (rule initCouchbase_connected)
next
  assume "characterAnchor ds' name s' = (Thrown e, s1)"
  then show "findSimilarCharacters ds' delay' name s' = (Thrown e, s1)"
    and "closes s1 = closes s'"
    by (simp_all add: findSimilarCharacters_def closes_characterAnchor)
next
  assume "characterAnchor ds' name s' = (Thrown e, s1)" and "cluster s'"
  then show "cluster s1"
    by (rule cluster_characterAnchor)
next
  assume h: "characterAnchor ds' name s' = (Returned emb, s2) \<and>
    \<not> (sdk_vector_query ds' emb = None \<and> \<not> sdk_search_late ds' (clock s2) \<and>
       sdk_search ds' (clock s2) ''vector-search-index'' emb 5 = Inr [])"
  then have "closes s2 < closes (snd (findSimilarCharacters ds' delay' name s'))"
    by (intro findSimilarCharacters_calls_close [of ds' name s' emb s2]) simp_all
  moreover from h have "closes s2 = closes s'"
    by (intro closes_characterAnchor [of ds' name s' "Returned emb"]) simp
  ultimately show "closes s' < closes (snd (findSimilarCharacters ds' delay' name s'))"
    by simp
next
  assume "characterAnchor ds' name s' = (Returned emb, s2) \<and>
    \<not> (sdk_vector_query ds' emb = None \<and> \<not> sdk_search_late ds' (clock s2) \<and>
       sdk_search ds' (clock s2) ''vector-search-index'' emb 5 = Inr [])"
    and "\<forall>t. sdk_close ds' t = None"
  then show "\<not> cluster (snd (findSimilarCharacters ds' delay' name s'))"
    by (intro findSimilarCharacters_closes [of ds' name s' emb s2]) simp_all
qed

theorem handle_lifecycle_witness:
  "cluster (connected ''monster::goblin'') \<and>
   cluster (serveMonsters galaxy lastFirst [fetchGoblin, findGhost]
              (connected ''monster::goblin'')) \<and>
   initCouchbase galaxy (connected ''monster::goblin'') =
     (Returned (), connected ''monster::goblin'') \<and>
   cluster (connected ''Tatooine'') \<and>
   characterAnchor galaxy ''ghost'' (connected ''Tatooine'') =
     (Thrown (Error ''Planet not found: ghost''),
      \<lparr>cluster = True, trace = [Connect, Get ''Tatooine'', Get ''Ghost'']\<rparr>) \<and>
   findSimilarCharacters galaxy lastFirst ''ghost'' (connected ''Tatooine'') =
     (Thrown (Error ''Planet not found: ghost''),
      \<lparr>cluster = True, trace = [Connect, Get ''Tatooine'', Get ''Ghost'']\<rparr>) \<and>
   characterAnchor galaxy ''tatooine'' start = (Returned [JNum 1, JNum 2], connected ''Tatooine'') \<and>
   sdk_search galaxy (clock (connected ''Tatooine'')) ''vector-search-index'' [JNum 1, JNum 2] 5 \<noteq>
     Inr [] \<and>
   closes start < closes (snd (findSimilarCharacters galaxy lastFirst ''tatooine'' start)) \<and>
   (\<forall>t. sdk_close galaxy t = None) \<and>
   \<not> cluster (snd (findSimilarCharacters galaxy lastFirst ''tatooine'' start))"
  using handle_lifecycle
    [where ds = galaxy and delay = lastFirst and reqs = "[fetchGoblin, findGhost]"
       and s = "connected ''monster::goblin''"
       and ds' = galaxy and name = "''tatooine''" and s' = start and emb = "[JNum 1, JNum 2]"
       and ?s2.0 = "connected ''Tatooine''" and delay' = lastFirst]
    handle_lifecycle
    [where ds = galaxy and delay = lastFirst and reqs = "[]" and s = start
       and ds' = galaxy and name = "''ghost''" and s' = "connected ''Tatooine''"
       and e = "Error ''Planet not found: ghost''"
       and ?s1.0 = "\<lparr>cluster = True, trace = [Connect, Get ''Tatooine'', Get ''Ghost'']\<rparr>"
       and delay' = lastFirst]
  by (simp add: characterAnchor_galaxy characterAnchor_ghost galaxy_simps galaxyRows_def)
     (simp add: connected_def)

text \<open>
  C9. Under the rule that capitalises the first letter and lower-cases the rest,
  \<^verbatim>\<open>tatooine\<close> and \<^verbatim>\<open>Tatooine\<close> have the same canonical key, \<^verbatim>\<open>Tatooine\<close>, and the
  resolver, started in the same state against the same datastore, gives the same result
  for both. The key is a function of the name alone.
\<close>

theorem canonical_key_tatooine:
  "capitalizeFirstLetter ''tatooine'' = ''Tatooine'' \<and>
   capitalizeFirstLetter ''Tatooine'' = ''Tatooine'' \<and>
   getCharacter ds ''tatooine'' s = getCharacter ds ''Tatooine'' s"
  by (simp add: capitalize_tatooine capitalize_Tatooine getCharacter_def)

text \<open>
  C10. A tool call whose tool name is neither of the two names a server exposes makes
  the call handler throw \<^verbatim>\<open>Error("Unknown tool")\<close>; no payload is returned and no
  datastore call is issued.
\<close>

theorem unknown_tool_throws:
  "(tool req \<noteq> ''fetch_monster_name'' \<and> tool req \<noteq> ''find_monsters_which_are_similar'' \<longrightarrow>
      monstersHandler ds delay req s = (Thrown (Error ''Unknown tool''), s)) \<and>
   (tool req' \<noteq> ''fetch_planet_name'' \<and> tool req' \<noteq> ''find_planets_which_are_similar'' \<longrightarrow>
      starwarsHandler ds delay req' s = (Thrown (Error ''Unknown tool''), s))"
  by (simp add: monstersHandler_def starwarsHandler_def)

theorem unknown_tool_throws_witness:
  "tool \<lparr>tool = ''delete_monster'', name_arg = JStr ''goblin''\<rparr> \<noteq> ''fetch_monster_name'' \<and>
   tool \<lparr>tool = ''delete_monster'', name_arg = JStr ''goblin''\<rparr> \<noteq>
     ''find_monsters_which_are_similar'' \<and>
   monstersHandler galaxy lastFirst \<lparr>tool = ''delete_monster'', name_arg = JStr ''goblin''\<rparr> start =
     (Thrown (Error ''Unknown tool''), start) \<and>
   tool \<lparr>tool = ''fetch_monster_name'', name_arg = JStr ''Tatooine''\<rparr> \<noteq> ''fetch_planet_name'' \<and>
   tool \<lparr>tool = ''fetch_monster_name'', name_arg = JStr ''Tatooine''\<rparr> \<noteq>
     ''find_planets_which_are_similar'' \<and>
   starwarsHandler galaxy lastFirst
     \<lparr>tool = ''fetch_monster_name'', name_arg = JStr ''Tatooine''\<rparr> start =
     (Thrown (Error ''Unknown tool''), start)"
  using unknown_tool_throws [of "\<lparr>tool = ''delete_monster'', name_arg = JStr ''goblin''\<rparr>"
      galaxy lastFirst start "\<lparr>tool = ''fetch_monster_name'', name_arg = JStr ''Tatooine''\<rparr>"]
  by simp

end
